theory Spec2Isabelle
  imports Main
begin

section \<open>JSON values and the Python operations the modules apply to them\<close>

text \<open>
  The modules handle the decoded JSON bodies of the provider's API: dictionaries with string
  keys, lists, strings, integers, booleans and \<open>None\<close>. A dictionary is an association
  list; a key is bound to the first pair that carries it.
\<close>

datatype jval =
    JNull
  | JBool bool
  | JInt int
  | JStr string
  | JList "jval list"
  | JDict "(string \<times> jval) list"

text \<open>The exceptions that the modules' own subscripting and iteration can raise.\<close>

datatype py_error = KeyError | TypeError

text \<open>
  \<open>container[key]\<close> with a string key: a dictionary without the key raises
  \<open>KeyError\<close>; a list or a string wants integer indices and every other value is not
  subscriptable, both \<open>TypeError\<close>.
\<close>

fun getitem :: "jval \<Rightarrow> string \<Rightarrow> py_error + jval" where
  "getitem (JDict kvs) k = (case map_of kvs k of None \<Rightarrow> Inl KeyError | Some v \<Rightarrow> Inr v)"
| "getitem _ k = Inl TypeError"

text \<open>\<open>d[k] = v\<close> on a dictionary: an existing key keeps its place, a new one is appended.\<close>

fun setitem :: "(string \<times> jval) list \<Rightarrow> string \<Rightarrow> jval \<Rightarrow> (string \<times> jval) list" where
  "setitem [] k v = [(k, v)]"
| "setitem ((k', v') # kvs) k v =
     (if k' = k then (k, v) # kvs else (k', v') # setitem kvs k v)"

text \<open>\<open>del d[k]\<close>: \<open>KeyError\<close> when the key is missing.\<close>

definition delitem :: "(string \<times> jval) list \<Rightarrow> string \<Rightarrow> py_error + (string \<times> jval) list" where
  "delitem kvs k =
     (if map_of kvs k = None then Inl KeyError else Inr (filter (\<lambda>kv. fst kv \<noteq> k) kvs))"

text \<open>
  \<open>for x in v\<close>: a list yields its elements, a dictionary its keys, a string its
  characters as one-character strings; nothing else is iterable.
\<close>

fun py_iter :: "jval \<Rightarrow> py_error + jval list" where
  "py_iter (JList xs) = Inr xs"
| "py_iter (JDict kvs) = Inr (map (\<lambda>kv. JStr (fst kv)) kvs)"
| "py_iter (JStr s) = Inr (map (\<lambda>c. JStr [c]) s)"
| "py_iter _ = Inl TypeError"

text \<open>Lists and dictionaries cannot be dictionary keys.\<close>

fun hashable :: "jval \<Rightarrow> bool" where
  "hashable (JList _) = False"
| "hashable (JDict _) = False"
| "hashable _ = True"

text \<open>Truth value of a JSON value, as \<open>if not patch_payload\<close> tests it.\<close>

fun truthy :: "jval \<Rightarrow> bool" where
  "truthy JNull = False"
| "truthy (JBool b) = b"
| "truthy (JInt n) = (n \<noteq> 0)"
| "truthy (JStr s) = (s \<noteq> [])"
| "truthy (JList xs) = (xs \<noteq> [])"
| "truthy (JDict kvs) = (kvs \<noteq> [])"

text \<open>
  \<open>dict((fn["name"], fn) for fn in fn_list)\<close>, the name-to-resource lookup that every
  strategy builds: the pairs are inserted in the listed order, so a later resource takes
  the place of an earlier one with the same name. The first resource without a
  \<open>name\<close>, or with an unhashable one, raises. The strategies only ever look up a string,
  for which Python's key equality is equality of the strings.
\<close>

fun name_dict :: "(jval \<rightharpoonup> jval) \<Rightarrow> jval list \<Rightarrow> py_error + (jval \<rightharpoonup> jval)" where
  "name_dict m [] = Inr m"
| "name_dict m (fn # fns) =
     (case getitem fn ''name'' of
        Inl e \<Rightarrow> Inl e
      | Inr n \<Rightarrow> if hashable n then name_dict (m(n \<mapsto> fn)) fns else Inl TypeError)"

section \<open>Formatted text, requests, responses and the API object\<close>

text \<open>
  A formatted string (\<open>"... %s ..." % v\<close>, \<open>"... {0} ...".format(v)\<close>) is kept as its
  pieces: the literal text, and each interpolated value that is not already a string as
  the value itself, standing for Python's \<open>str(v)\<close>.
\<close>

datatype piece = Lit string | Str jval

type_synonym fmt = "piece list"

definition apostrophe :: string where
  "apostrophe = [CHR 0x27]"

datatype http_method = GET | POST | PATCH | DELETE

record request =
  meth :: http_method
  path :: fmt
  data :: "jval option"

record response =
  status_code :: int
  json :: jval
  info :: jval

text \<open>
  Modelled from the spec: the \<open>ok\<close> property of the shared client's response class is not
  among the sources; the spec calls a failure every non-2xx response.
\<close>

definition ok :: "response \<Rightarrow> bool" where
  "ok r = (200 \<le> status_code r \<and> status_code r \<le> 299)"

text \<open>
  The API object of a run: the endpoint set by \<open>core\<close>, the host's check-mode flag, the
  remote server (which answers a request knowing the requests made before it), the
  requests issued so far in order, and the payloads passed to \<open>api.warn\<close>.
\<close>

record api =
  api_path :: string
  check_mode :: bool
  server :: "request list \<Rightarrow> request \<Rightarrow> response"
  calls :: "request list"
  warned :: "jval list"

definition send :: "request \<Rightarrow> api \<Rightarrow> response \<times> api" where
  "send rq a = (server a (calls a) rq, a\<lparr>calls := calls a @ [rq]\<rparr>)"

definition api_get :: "fmt \<Rightarrow> api \<Rightarrow> response \<times> api" where
  "api_get p = send \<lparr>meth = GET, path = p, data = None\<rparr>"

definition api_post :: "fmt \<Rightarrow> jval \<Rightarrow> api \<Rightarrow> response \<times> api" where
  "api_post p d = send \<lparr>meth = POST, path = p, data = Some d\<rparr>"

definition api_patch :: "fmt \<Rightarrow> jval \<Rightarrow> api \<Rightarrow> response \<times> api" where
  "api_patch p d = send \<lparr>meth = PATCH, path = p, data = Some d\<rparr>"

definition api_delete :: "fmt \<Rightarrow> api \<Rightarrow> response \<times> api" where
  "api_delete p = send \<lparr>meth = DELETE, path = p, data = None\<rparr>"

definition api_warn :: "jval \<Rightarrow> api \<Rightarrow> api" where
  "api_warn x a = a\<lparr>warned := warned a @ [x]\<rparr>"

text \<open>\<open>api.api_path + "/%s" % resource["id"]\<close>\<close>

definition resource_path :: "api \<Rightarrow> jval \<Rightarrow> fmt" where
  "resource_path a i = [Lit (api_path a @ ''/''), Str i]"

text \<open>
  What a step of a strategy comes to: a value, \<open>fail_json\<close> with its message (the module
  exits there), or an exception that nothing catches.
\<close>

datatype 'a res = Ok 'a | Fail_json fmt | Raise py_error

definition and_then :: "'a res \<times> api \<Rightarrow> ('a \<Rightarrow> api \<Rightarrow> 'b res \<times> api) \<Rightarrow> 'b res \<times> api" where
  "and_then ra k =
     (case ra of
        (Ok x, a) \<Rightarrow> k x a
      | (Fail_json m, a) \<Rightarrow> (Fail_json m, a)
      | (Raise e, a) \<Rightarrow> (Raise e, a))"

definition lift :: "py_error + 'a \<Rightarrow> api \<Rightarrow> 'a res \<times> api" where
  "lift v a = (case v of Inl e \<Rightarrow> (Raise e, a) | Inr x \<Rightarrow> (Ok x, a))"

section \<open>The shared helpers\<close>

text \<open>
  The helpers imported from \<open>plugins/module_utils/scaleway.py\<close> are not among the
  sources. The strategies take them as arguments. A helper that talks to the API reads the
  API object and gives back its result with the requests it issued, which the caller's
  trace then carries; the two others are functions of their arguments.
\<close>

type_synonym wait_fn = "api \<Rightarrow> jval \<Rightarrow> string list \<Rightarrow> bool \<Rightarrow> unit res \<times> request list"

type_synonym fetch_fn = "api \<Rightarrow> string \<Rightarrow> jval res \<times> request list"

type_synonym diff_fn = "jval \<Rightarrow> jval \<Rightarrow> string list \<Rightarrow> string list \<Rightarrow> jval res"

definition helper :: "'a res \<times> request list \<Rightarrow> api \<Rightarrow> 'a res \<times> api" where
  "helper h a = (fst h, a\<lparr>calls := calls a @ snd h\<rparr>)"

text \<open>
  Both mutating modules pass the comparison helper its first two arguments by keyword, and
  not by the same keywords: \<open>scaleway_function_namespace.py\<close> passes \<open>target=\<close> and
  \<open>wished=\<close>, \<open>scaleway_container.py\<close> passes \<open>target_cn=\<close> and \<open>wished_cn=\<close>. The
  helper's parameters are \<open>target\<close> and \<open>wished\<close>, the names under which the
  function-namespace module reaches it; a call with a keyword that the function does not
  have raises \<open>TypeError\<close> before the function runs. (The keywords
  \<open>verifiable_mutable_attributes=\<close> and \<open>mutable_attributes=\<close> are the same in both.)
\<close>

definition keyword_call ::
  "diff_fn \<Rightarrow> string \<Rightarrow> string \<Rightarrow> jval \<Rightarrow> jval \<Rightarrow> string list \<Rightarrow> string list \<Rightarrow> jval res" where
  "keyword_call resource_attributes_should_be_changed target_keyword wished_keyword
     target wished verifiable_mutable_attributes mutable_attributes =
     (if target_keyword = ''target'' \<and> wished_keyword = ''wished''
      then resource_attributes_should_be_changed target wished
             verifiable_mutable_attributes mutable_attributes
      else Raise TypeError)"

text \<open>
  The opening of the container strategies and of both info strategies: list the resources,
  fail on a response that is not ok, and build the lookup from the list under \<open>key\<close>.
  The messages differ only in the resources' name \<open>what\<close>:
  \<open>'Error getting containers [{0}: {1}]'\<close> and so on.
\<close>

definition list_by_name :: "string \<Rightarrow> string \<Rightarrow> api \<Rightarrow> (jval \<rightharpoonup> jval) res \<times> api" where
  "list_by_name what key a =
     (case api_get [Lit (api_path a)] a of (response, a1) \<Rightarrow>
        if \<not> ok response then
          and_then (lift (getitem (json response) ''message'') a1) (\<lambda>m a2.
            (Fail_json [Lit (''Error getting '' @ what @ '' [''), Str (JInt (status_code response)),
                        Lit '': '', Str m, Lit '']''], a2))
        else
          and_then (lift (getitem (json response) key) a1) (\<lambda>cn_list a2.
          and_then (lift (py_iter cn_list) a2) (\<lambda>fns a3.
          lift (name_dict Map.empty fns) a3)))"

text \<open>
  The result that a module hands to its host: \<open>exit_json\<close> with the changed flag and the
  resource description under the module's key, \<open>fail_json\<close> with its message, or the
  traceback of an uncaught exception.
\<close>

datatype exit = Exit_json bool string jval | Exit_fail fmt | Traceback py_error

text \<open>
  The second argument of \<open>filter_sensitive_attributes\<close> is whatever the module's
  \<open>SENSITIVE_ATTRIBUTES\<close> is: a tuple of names, or, where the parentheses hold one
  string and no comma, that string.
\<close>

datatype py_seq = PyStr string | PyTuple "string list"

type_synonym filter_fn = "jval \<Rightarrow> py_seq \<Rightarrow> jval res"

definition finish :: "filter_fn \<Rightarrow> string \<Rightarrow> py_seq \<Rightarrow> (bool \<times> jval) res \<times> api \<Rightarrow> exit \<times> api" where
  "finish filter_sensitive_attributes key sensitive ra =
     (case ra of
        (Ok (changed, summary), a) \<Rightarrow>
          (case filter_sensitive_attributes summary sensitive of
             Ok shown \<Rightarrow> (Exit_json changed key shown, a)
           | Fail_json m \<Rightarrow> (Exit_fail m, a)
           | Raise e \<Rightarrow> (Traceback e, a))
      | (Fail_json m, a) \<Rightarrow> (Exit_fail m, a)
      | (Raise e, a) \<Rightarrow> (Traceback e, a))"

datatype state = Present | Absent

definition opt_int :: "int option \<Rightarrow> jval" where
  "opt_int v = (case v of None \<Rightarrow> JNull | Some n \<Rightarrow> JInt n)"

definition opt_str :: "string option \<Rightarrow> jval" where
  "opt_str v = (case v of None \<Rightarrow> JNull | Some s \<Rightarrow> JStr s)"

text \<open>
  Modelled from the spec: the class \<open>Scaleway\<close> of the shared utility module, the "shared
  HTTP client", is not among the sources. \<open>Scaleway(module=module)\<close> is a client for the
  run's server that has issued no request yet and knows the module's check-mode flag;
  \<open>core\<close> then sets its \<open>api_path\<close>.
\<close>

definition Scaleway :: "bool \<Rightarrow> (request list \<Rightarrow> request \<Rightarrow> response) \<Rightarrow> api" where
  "Scaleway cm srv = \<lparr>api_path = [], check_mode = cm, server = srv, calls = [], warned = []\<rparr>"

section \<open>scaleway\_container\<close>

text \<open>
  \<open>module.params\<close> after the host has checked it against the argument specification,
  with the host's check-mode flag: strings are strings, \<open>state\<close> is one of its two
  choices, an integer or string without a default may be \<open>None\<close>.
\<close>

record cn_module =
  cnp_check_mode :: bool
  cnp_state :: state
  cnp_namespace_id :: string
  cnp_region :: string
  cnp_name :: string
  cnp_description :: string
  cnp_min_scale :: "int option"
  cnp_max_scale :: "int option"
  cnp_memory_limit :: "int option"
  cnp_container_timeout :: "string option"
  cnp_privacy :: string
  cnp_registry_image :: string
  cnp_max_concurrency :: "int option"
  cnp_protocol :: string
  cnp_port :: "int option"
  cnp_redeploy :: bool
  cnp_environment_variables :: "(string \<times> jval) list"
  cnp_secret_environment_variables :: "(string \<times> jval) list"

text \<open>The dictionary \<open>wished_container\<close> that \<open>core\<close> builds, with its fixed keys.\<close>

record wished_cn =
  cn_state :: state
  cn_namespace_id :: string
  cn_name :: string
  cn_description :: string
  cn_min_scale :: "int option"
  cn_max_scale :: "int option"
  cn_environment_variables :: "(string \<times> jval) list"
  cn_secret_environment_variables :: "(string \<times> jval) list"
  cn_memory_limit :: "int option"
  cn_timeout :: "string option"
  cn_privacy :: string
  cn_registry_image :: string
  cn_max_concurrency :: "int option"
  cn_protocol :: string
  cn_port :: "int option"
  cn_redeploy :: bool

definition cn_STABLE_STATES :: "string list" where
  "cn_STABLE_STATES = [''ready'', ''created'', ''absent'']"

definition cn_VERIFIABLE_MUTABLE_ATTRIBUTES :: "string list" where
  "cn_VERIFIABLE_MUTABLE_ATTRIBUTES =
     [''description'', ''min_scale'', ''max_scale'', ''environment_variables'', ''memory_limit'',
      ''timeout'', ''privacy'', ''registry_image'', ''max_concurrency'', ''protocol'', ''port'']"

definition cn_MUTABLE_ATTRIBUTES :: "string list" where
  "cn_MUTABLE_ATTRIBUTES = cn_VERIFIABLE_MUTABLE_ATTRIBUTES @ [''secret_environment_variables'']"

text \<open>One string in parentheses, without a comma: a string.\<close>

definition cn_SENSITIVE_ATTRIBUTES :: py_seq where
  "cn_SENSITIVE_ATTRIBUTES = PyStr ''secret_environment_variables''"

definition secret_list :: "(string \<times> jval) list \<Rightarrow> jval" where
  "secret_list vars = JList (map (\<lambda>var. JDict [(''key'', JStr (fst var)), (''value'', snd var)]) vars)"

definition payload_from_wished_cn :: "wished_cn \<Rightarrow> (string \<times> jval) list" where
  "payload_from_wished_cn wished_cn =
     [(''namespace_id'', JStr (cn_namespace_id wished_cn)),
      (''name'', JStr (cn_name wished_cn)),
      (''description'', JStr (cn_description wished_cn)),
      (''min_scale'', opt_int (cn_min_scale wished_cn)),
      (''max_scale'', opt_int (cn_max_scale wished_cn)),
      (''environment_variables'', JDict (cn_environment_variables wished_cn)),
      (''secret_environment_variables'', secret_list (cn_secret_environment_variables wished_cn)),
      (''memory_limit'', opt_int (cn_memory_limit wished_cn)),
      (''timeout'', opt_str (cn_timeout wished_cn)),
      (''privacy'', JStr (cn_privacy wished_cn)),
      (''registry_image'', JStr (cn_registry_image wished_cn)),
      (''max_concurrency'', opt_int (cn_max_concurrency wished_cn)),
      (''protocol'', JStr (cn_protocol wished_cn)),
      (''port'', opt_int (cn_port wished_cn)),
      (''redeploy'', JBool (cn_redeploy wished_cn))]"

definition status_summary :: "string \<Rightarrow> jval" where
  "status_summary s = JDict [(''status'', JStr s)]"

definition cn_absent_strategy :: "wait_fn \<Rightarrow> api \<Rightarrow> wished_cn \<Rightarrow> (bool \<times> jval) res \<times> api" where
  "cn_absent_strategy wait_to_complete_state_transition api wished_cn =
     and_then (list_by_name ''containers'' ''containers'' api) (\<lambda>cn_lookup a1.
       case cn_lookup (JStr (cn_name wished_cn)) of
         None \<Rightarrow> (Ok (False, JDict []), a1)
       | Some target_cn \<Rightarrow>
           if check_mode a1 then (Ok (True, status_summary ''Container would be destroyed''), a1)
           else
             and_then (helper (wait_to_complete_state_transition a1 target_cn cn_STABLE_STATES True) a1) (\<lambda>_ a2.
             and_then (lift (getitem target_cn ''id'') a2) (\<lambda>i a3.
               case api_delete (resource_path a3 i) a3 of (response, a4) \<Rightarrow>
                 if \<not> ok response then
                   (Fail_json [Lit ''Error deleting container ['', Str (JInt (status_code response)),
                               Lit '': '', Str (json response), Lit '']''], a4)
                 else
                   and_then (helper (wait_to_complete_state_transition a4 target_cn cn_STABLE_STATES False) a4) (\<lambda>_ a5.
                     (Ok (True, json response), a5)))))"

definition cn_present_strategy ::
  "wait_fn \<Rightarrow> diff_fn \<Rightarrow> api \<Rightarrow> wished_cn \<Rightarrow> (bool \<times> jval) res \<times> api" where
  "cn_present_strategy wait_to_complete_state_transition resource_attributes_should_be_changed api wished_cn =
     and_then (list_by_name ''containers'' ''containers'' api) (\<lambda>cn_lookup a1.
       let playload_cn = payload_from_wished_cn wished_cn in
       case cn_lookup (JStr (cn_name wished_cn)) of
         None \<Rightarrow>
           if check_mode a1 then (Ok (True, status_summary ''A container would be created.''), a1)
           else
             and_then (lift (delitem playload_cn ''redeploy'') a1) (\<lambda>playload_cn a2.
               case api_post [Lit (api_path a2)] (JDict playload_cn) (api_warn (JDict playload_cn) a2) of
                 (creation_response, a3) \<Rightarrow>
                   if \<not> ok creation_response then
                     and_then (lift (getitem (info creation_response) ''msg'') a3) (\<lambda>info_msg a4.
                     and_then (lift (getitem (json creation_response) ''message'') a4) (\<lambda>message a5.
                       (Fail_json [Lit ''Error during container creation: '', Str info_msg,
                                   Lit ('': '' @ apostrophe), Str message, Lit (apostrophe @ '' (''),
                                   Str (json creation_response), Lit '')''], a5)))
                   else
                     and_then (helper (wait_to_complete_state_transition a3 (json creation_response) cn_STABLE_STATES False) a3) (\<lambda>_ a4.
                     and_then (lift (getitem (json creation_response) ''id'') a4) (\<lambda>i a5.
                       case api_get (resource_path a5 i) a5 of (response, a6) \<Rightarrow>
                         (Ok (True, json response), a6))))
       | Some target_cn \<Rightarrow>
           and_then (keyword_call resource_attributes_should_be_changed ''target_cn'' ''wished_cn''
                       target_cn (JDict playload_cn)
                       cn_VERIFIABLE_MUTABLE_ATTRIBUTES cn_MUTABLE_ATTRIBUTES, a1) (\<lambda>patch_payload a2.
             if \<not> truthy patch_payload then (Ok (False, target_cn), a2)
             else if check_mode a2 then (Ok (True, status_summary ''Container attributes would be changed.''), a2)
             else
               and_then (lift (getitem target_cn ''id'') a2) (\<lambda>i a3.
                 case api_patch (resource_path a3 i) patch_payload a3 of (cn_patch_response, a4) \<Rightarrow>
                   if \<not> ok cn_patch_response then
                     and_then (lift (getitem (json cn_patch_response) ''message'') a4) (\<lambda>message a5.
                       (Fail_json [Lit ''Error during container attributes update: ['',
                                   Str (JInt (status_code cn_patch_response)), Lit '': '', Str message,
                                   Lit '']''], a5))
                   else
                     and_then (helper (wait_to_complete_state_transition a4 target_cn cn_STABLE_STATES False) a4) (\<lambda>_ a5.
                     and_then (lift (getitem target_cn ''id'') a5) (\<lambda>i a6.
                       case api_get (resource_path a6 i) a6 of (response, a7) \<Rightarrow>
                         (Ok (True, json response), a7))))))"

definition cn_state_strategy ::
  "wait_fn \<Rightarrow> diff_fn \<Rightarrow> state \<Rightarrow> api \<Rightarrow> wished_cn \<Rightarrow> (bool \<times> jval) res \<times> api" where
  "cn_state_strategy w d s =
     (case s of Present \<Rightarrow> cn_present_strategy w d | Absent \<Rightarrow> cn_absent_strategy w)"

definition cn_core ::
  "wait_fn \<Rightarrow> diff_fn \<Rightarrow> filter_fn \<Rightarrow> (request list \<Rightarrow> request \<Rightarrow> response) \<Rightarrow> cn_module \<Rightarrow> exit \<times> api" where
  "cn_core w d filter_sensitive_attributes srv module =
     (let region = cnp_region module;
          wished_container =
            \<lparr>cn_state = cnp_state module,
             cn_namespace_id = cnp_namespace_id module,
             cn_name = cnp_name module,
             cn_description = cnp_description module,
             cn_min_scale = cnp_min_scale module,
             cn_max_scale = cnp_max_scale module,
             cn_environment_variables = cnp_environment_variables module,
             cn_secret_environment_variables = cnp_secret_environment_variables module,
             cn_memory_limit = cnp_memory_limit module,
             cn_timeout = cnp_container_timeout module,
             cn_privacy = cnp_privacy module,
             cn_registry_image = cnp_registry_image module,
             cn_max_concurrency = cnp_max_concurrency module,
             cn_protocol = cnp_protocol module,
             cn_port = cnp_port module,
             cn_redeploy = cnp_redeploy module\<rparr>;
          api = (Scaleway (cnp_check_mode module) srv)\<lparr>api_path := ''containers/v1beta1/regions/'' @ region @ ''/containers''\<rparr>
      in finish filter_sensitive_attributes ''container'' cn_SENSITIVE_ATTRIBUTES
           (cn_state_strategy w d (cn_state wished_container) api wished_container))"

section \<open>scaleway\_function\_namespace\<close>

record fn_module =
  fnp_check_mode :: bool
  fnp_state :: state
  fnp_project_id :: string
  fnp_region :: string
  fnp_name :: string
  fnp_description :: string
  fnp_environment_variables :: "(string \<times> jval) list"
  fnp_secret_environment_variables :: "(string \<times> jval) list"

record wished_fn =
  fn_state :: state
  fn_project_id :: string
  fn_name :: string
  fn_description :: string
  fn_environment_variables :: "(string \<times> jval) list"
  fn_secret_environment_variables :: "(string \<times> jval) list"

definition fn_STABLE_STATES :: "string list" where
  "fn_STABLE_STATES = [''ready'', ''absent'']"

definition fn_VERIFIABLE_MUTABLE_ATTRIBUTES :: "string list" where
  "fn_VERIFIABLE_MUTABLE_ATTRIBUTES = [''description'', ''environment_variables'']"

definition fn_MUTABLE_ATTRIBUTES :: "string list" where
  "fn_MUTABLE_ATTRIBUTES = fn_VERIFIABLE_MUTABLE_ATTRIBUTES @ [''secret_environment_variables'']"

text \<open>Here the comma is there: a tuple of one name.\<close>

definition fn_SENSITIVE_ATTRIBUTES :: py_seq where
  "fn_SENSITIVE_ATTRIBUTES = PyTuple [''secret_environment_variables'']"

definition payload_from_wished_fn :: "wished_fn \<Rightarrow> (string \<times> jval) list" where
  "payload_from_wished_fn wished_fn =
     [(''project_id'', JStr (fn_project_id wished_fn)),
      (''name'', JStr (fn_name wished_fn)),
      (''description'', JStr (fn_description wished_fn)),
      (''environment_variables'', JDict (fn_environment_variables wished_fn)),
      (''secret_environment_variables'', secret_list (fn_secret_environment_variables wished_fn))]"

text \<open>
  Both strategies open with \<open>fetch_all_resources(api, "namespaces")\<close> and build the lookup
  from what it returns.
\<close>

definition fn_list_by_name :: "fetch_fn \<Rightarrow> api \<Rightarrow> (jval \<rightharpoonup> jval) res \<times> api" where
  "fn_list_by_name fetch_all_resources a =
     and_then (helper (fetch_all_resources a ''namespaces'') a) (\<lambda>fn_list a1.
     and_then (lift (py_iter fn_list) a1) (\<lambda>fns a2.
     lift (name_dict Map.empty fns) a2))"

definition fn_absent_strategy ::
  "wait_fn \<Rightarrow> fetch_fn \<Rightarrow> api \<Rightarrow> wished_fn \<Rightarrow> (bool \<times> jval) res \<times> api" where
  "fn_absent_strategy wait_to_complete_state_transition fetch_all_resources api wished_fn =
     and_then (fn_list_by_name fetch_all_resources api) (\<lambda>fn_lookup a1.
       case fn_lookup (JStr (fn_name wished_fn)) of
         None \<Rightarrow> (Ok (False, JDict []), a1)
       | Some target_fn \<Rightarrow>
           if check_mode a1 then
             (Ok (True, status_summary ''Function namespace would be destroyed''), a1)
           else
             and_then (helper (wait_to_complete_state_transition a1 target_fn fn_STABLE_STATES True) a1) (\<lambda>_ a2.
             and_then (lift (getitem target_fn ''id'') a2) (\<lambda>i a3.
               case api_delete (resource_path a3 i) a3 of (response, a4) \<Rightarrow>
                 if \<not> ok response then
                   (Fail_json [Lit ''Error deleting function namespace ['',
                               Str (JInt (status_code response)), Lit '': '', Str (json response),
                               Lit '']''], a4)
                 else
                   and_then (helper (wait_to_complete_state_transition a4 target_fn fn_STABLE_STATES False) a4) (\<lambda>_ a5.
                     (Ok (True, json response), a5)))))"

definition fn_present_strategy ::
  "wait_fn \<Rightarrow> diff_fn \<Rightarrow> fetch_fn \<Rightarrow> api \<Rightarrow> wished_fn \<Rightarrow> (bool \<times> jval) res \<times> api" where
  "fn_present_strategy wait_to_complete_state_transition resource_attributes_should_be_changed
     fetch_all_resources api wished_fn =
     and_then (fn_list_by_name fetch_all_resources api) (\<lambda>fn_lookup a1.
       let playload_fn = payload_from_wished_fn wished_fn in
       case fn_lookup (JStr (fn_name wished_fn)) of
         None \<Rightarrow>
           if check_mode a1 then
             (Ok (True, status_summary ''A function namespace would be created.''), a1)
           else
             (case api_post [Lit (api_path a1)] (JDict playload_fn) (api_warn (JDict playload_fn) a1) of
                (creation_response, a3) \<Rightarrow>
                  if \<not> ok creation_response then
                    and_then (lift (getitem (info creation_response) ''msg'') a3) (\<lambda>info_msg a4.
                    and_then (lift (getitem (json creation_response) ''message'') a4) (\<lambda>message a5.
                      (Fail_json [Lit ''Error during function namespace creation: '', Str info_msg,
                                  Lit ('': '' @ apostrophe), Str message, Lit (apostrophe @ '' (''),
                                  Str (json creation_response), Lit '')''], a5)))
                  else
                    and_then (helper (wait_to_complete_state_transition a3 (json creation_response) fn_STABLE_STATES False) a3) (\<lambda>_ a4.
                    and_then (lift (getitem (json creation_response) ''id'') a4) (\<lambda>i a5.
                      case api_get (resource_path a5 i) a5 of (response, a6) \<Rightarrow>
                        (Ok (True, json response), a6))))
       | Some target_fn \<Rightarrow>
           and_then (keyword_call resource_attributes_should_be_changed ''target'' ''wished''
                       target_fn (JDict playload_fn)
                       fn_VERIFIABLE_MUTABLE_ATTRIBUTES fn_MUTABLE_ATTRIBUTES, a1) (\<lambda>patch_payload a2.
             if \<not> truthy patch_payload then (Ok (False, target_fn), a2)
             else if check_mode a2 then
               (Ok (True, status_summary ''Function namespace attributes would be changed.''), a2)
             else
               and_then (lift (getitem target_fn ''id'') a2) (\<lambda>i a3.
                 case api_patch (resource_path a3 i) patch_payload a3 of (fn_patch_response, a4) \<Rightarrow>
                   if \<not> ok fn_patch_response then
                     and_then (lift (getitem (json fn_patch_response) ''message'') a4) (\<lambda>message a5.
                       (Fail_json [Lit ''Error during function namespace attributes update: ['',
                                   Str (JInt (status_code fn_patch_response)), Lit '': '', Str message,
                                   Lit '']''], a5))
                   else
                     and_then (helper (wait_to_complete_state_transition a4 target_fn fn_STABLE_STATES False) a4) (\<lambda>_ a5.
                     and_then (lift (getitem target_fn ''id'') a5) (\<lambda>i a6.
                       case api_get (resource_path a6 i) a6 of (response, a7) \<Rightarrow>
                         (Ok (True, json response), a7))))))"

definition fn_state_strategy ::
  "wait_fn \<Rightarrow> diff_fn \<Rightarrow> fetch_fn \<Rightarrow> state \<Rightarrow> api \<Rightarrow> wished_fn \<Rightarrow> (bool \<times> jval) res \<times> api" where
  "fn_state_strategy w d f s =
     (case s of Present \<Rightarrow> fn_present_strategy w d f | Absent \<Rightarrow> fn_absent_strategy w f)"

definition fn_core ::
  "wait_fn \<Rightarrow> diff_fn \<Rightarrow> fetch_fn \<Rightarrow> filter_fn \<Rightarrow> (request list \<Rightarrow> request \<Rightarrow> response) \<Rightarrow>
   fn_module \<Rightarrow> exit \<times> api" where
  "fn_core w d f filter_sensitive_attributes srv module =
     (let region = fnp_region module;
          wished_function_namespace =
            \<lparr>fn_state = fnp_state module,
             fn_project_id = fnp_project_id module,
             fn_name = fnp_name module,
             fn_description = fnp_description module,
             fn_environment_variables = fnp_environment_variables module,
             fn_secret_environment_variables = fnp_secret_environment_variables module\<rparr>;
          api = (Scaleway (fnp_check_mode module) srv)\<lparr>api_path := ''functions/v1beta1/regions/'' @ region @ ''/namespaces''\<rparr>
      in finish filter_sensitive_attributes ''function_namespace'' fn_SENSITIVE_ATTRIBUTES
           (fn_state_strategy w d f (fn_state wished_function_namespace) api
              wished_function_namespace))"

section \<open>scaleway\_container\_registry\_info and scaleway\_function\_namespace\_info\<close>

text \<open>
  The two info modules are the same code up to their wording and their endpoint; each has
  its own \<open>info_strategy\<close> and \<open>core\<close>.
\<close>

record info_module =
  inp_check_mode :: bool
  inp_project_id :: string
  inp_region :: string
  inp_name :: string

record wished_info =
  in_project_id :: string
  in_name :: string

definition info_SENSITIVE_ATTRIBUTES :: py_seq where
  "info_SENSITIVE_ATTRIBUTES = PyStr ''secret_environment_variables''"

definition cr_info_strategy :: "api \<Rightarrow> wished_info \<Rightarrow> jval res \<times> api" where
  "cr_info_strategy api wished_cn =
     and_then (list_by_name ''container registries'' ''namespaces'' api) (\<lambda>cn_lookup a1.
       case cn_lookup (JStr (in_name wished_cn)) of
         None \<Rightarrow>
           (Fail_json [Lit (''Error during container registries lookup: Unable to find container registry named ''
                            @ apostrophe @ in_name wished_cn @ apostrophe @ '' in project ''
                            @ apostrophe @ in_project_id wished_cn @ apostrophe)], a1)
       | Some target_cn \<Rightarrow>
           and_then (lift (getitem target_cn ''id'') a1) (\<lambda>i a2.
             case api_get (resource_path a2 i) a2 of (response, a3) \<Rightarrow>
               if \<not> ok response then
                 and_then (lift (getitem (info response) ''msg'') a3) (\<lambda>info_msg a4.
                 and_then (lift (getitem (json response) ''message'') a4) (\<lambda>message a5.
                   (Fail_json [Lit ''Error during container registry lookup: '', Str info_msg,
                               Lit ('': '' @ apostrophe), Str message, Lit (apostrophe @ '' (''),
                               Str (json response), Lit '')''], a5)))
               else (Ok (json response), a3)))"

definition fn_info_strategy :: "api \<Rightarrow> wished_info \<Rightarrow> jval res \<times> api" where
  "fn_info_strategy api wished_fn =
     and_then (list_by_name ''function namespaces'' ''namespaces'' api) (\<lambda>fn_lookup a1.
       case fn_lookup (JStr (in_name wished_fn)) of
         None \<Rightarrow>
           (Fail_json [Lit (''Error during function namespace lookup: Unable to find function namespace named ''
                            @ apostrophe @ in_name wished_fn @ apostrophe @ '' in project ''
                            @ apostrophe @ in_project_id wished_fn @ apostrophe)], a1)
       | Some target_fn \<Rightarrow>
           and_then (lift (getitem target_fn ''id'') a1) (\<lambda>i a2.
             case api_get (resource_path a2 i) a2 of (response, a3) \<Rightarrow>
               if \<not> ok response then
                 and_then (lift (getitem (info response) ''msg'') a3) (\<lambda>info_msg a4.
                 and_then (lift (getitem (json response) ''message'') a4) (\<lambda>message a5.
                   (Fail_json [Lit ''Error during function namespace lookup: '', Str info_msg,
                               Lit ('': '' @ apostrophe), Str message, Lit (apostrophe @ '' (''),
                               Str (json response), Lit '')''], a5)))
               else (Ok (json response), a3)))"

definition info_finish :: "filter_fn \<Rightarrow> string \<Rightarrow> jval res \<times> api \<Rightarrow> exit \<times> api" where
  "info_finish filter_sensitive_attributes key ra =
     finish filter_sensitive_attributes key info_SENSITIVE_ATTRIBUTES
       (and_then ra (\<lambda>summary a. (Ok (False, summary), a)))"

definition cr_info_core ::
  "filter_fn \<Rightarrow> (request list \<Rightarrow> request \<Rightarrow> response) \<Rightarrow> info_module \<Rightarrow> exit \<times> api" where
  "cr_info_core filter_sensitive_attributes srv module =
     (let region = inp_region module;
          wished_container_namespace =
            \<lparr>in_project_id = inp_project_id module, in_name = inp_name module\<rparr>;
          api = (Scaleway (inp_check_mode module) srv)\<lparr>api_path := ''registry/v1/regions/'' @ region @ ''/namespaces''\<rparr>
      in info_finish filter_sensitive_attributes ''container_registry''
           (cr_info_strategy api wished_container_namespace))"

definition fn_info_core ::
  "filter_fn \<Rightarrow> (request list \<Rightarrow> request \<Rightarrow> response) \<Rightarrow> info_module \<Rightarrow> exit \<times> api" where
  "fn_info_core filter_sensitive_attributes srv module =
     (let region = inp_region module;
          wished_function_namespace =
            \<lparr>in_project_id = inp_project_id module, in_name = inp_name module\<rparr>;
          api = (Scaleway (inp_check_mode module) srv)\<lparr>api_path := ''functions/v1beta1/regions/'' @ region @ ''/namespaces''\<rparr>
      in info_finish filter_sensitive_attributes ''function_namespace''
           (fn_info_strategy api wished_function_namespace))"

section \<open>The helpers as the spec describes them\<close>

text \<open>
  Modelled from the spec: \<open>filter_sensitive_attributes\<close> of
  \<open>plugins/module_utils/scaleway.py\<close> is not among the sources. The spec has the
  secret-valued attributes "replaced with a redaction marker on output"; the marker is the
  \<open>"SENSITIVE_VALUE"\<close> of the modules' documented return values. The model iterates over
  its second argument and sets each item it meets, taken as an attribute name, to the
  marker in the description (a name that the description lacks is added; no statement
  below rests on that). Iterating over a tuple gives its names, iterating over a string
  gives its characters. A description that is not a dictionary takes no item assignment.
\<close>

fun seq_items :: "py_seq \<Rightarrow> string list" where
  "seq_items (PyTuple names) = names"
| "seq_items (PyStr s) = map (\<lambda>c. [c]) s"

definition SENSITIVE_VALUE :: jval where
  "SENSITIVE_VALUE = JStr ''SENSITIVE_VALUE''"

definition filter_sensitive_attributes :: filter_fn where
  "filter_sensitive_attributes container attributes =
     (case container of
        JDict kvs \<Rightarrow>
          Ok (JDict (fold (\<lambda>attr kvs. setitem kvs attr SENSITIVE_VALUE) (seq_items attributes) kvs))
      | _ \<Rightarrow> if seq_items attributes = [] then Ok container else Raise TypeError)"

text \<open>
  Modelled from the spec: \<open>wait_to_complete_state_transition\<close> is not among the sources.
  Its contract in the spec: "given a resource handle and a set of terminal status strings,
  it repeatedly re-reads the resource and blocks (with a bounded delay) until its status
  is terminal or a failure status is observed, then returns or raises." The model re-reads
  the resource at most \<open>polls\<close> times; it returns at the first terminal status and fails
  on a response that is not ok and when its re-reads are used up. The wording of its
  failures is not in the spec and is left empty.
\<close>

fun poll :: "nat \<Rightarrow> api \<Rightarrow> request \<Rightarrow> string list \<Rightarrow> request list \<Rightarrow> unit res \<times> request list" where
  "poll 0 a rq stable_states sent = (Fail_json [], sent)"
| "poll (Suc n) a rq stable_states sent =
     (let response = server a (calls a @ sent) rq in
      if \<not> ok response then (Fail_json [], sent @ [rq])
      else
        (case getitem (json response) ''status'' of
           Inl e \<Rightarrow> (Raise e, sent @ [rq])
         | Inr status \<Rightarrow>
             if status \<in> JStr ` set stable_states then (Ok (), sent @ [rq])
             else poll n a rq stable_states (sent @ [rq])))"

definition wait_to_complete_state_transition :: "nat \<Rightarrow> wait_fn" where
  "wait_to_complete_state_transition polls a resource stable_states force_wait =
     (case getitem resource ''id'' of
        Inl e \<Rightarrow> (Raise e, [])
      | Inr i \<Rightarrow> poll polls a \<lparr>meth = GET, path = resource_path a i, data = None\<rparr> stable_states [])"

text \<open>
  Modelled from the spec: \<open>fetch_all_resources\<close> is not among the sources, and the spec
  says of the listing only that the existing resources are listed and that a non-2xx
  response is a fatal failure. The model is the listing that the other three modules
  write out: one GET of the endpoint, and the list under the given key.
\<close>

definition fetch_all_resources :: fetch_fn where
  "fetch_all_resources a resource_key =
     (let rq = \<lparr>meth = GET, path = [Lit (api_path a)], data = None\<rparr>;
          response = server a (calls a) rq in
      if \<not> ok response then
        (case getitem (json response) ''message'' of
           Inl e \<Rightarrow> (Raise e, [rq])
         | Inr m \<Rightarrow>
             (Fail_json [Lit (''Error getting '' @ resource_key @ '' [''),
                         Str (JInt (status_code response)), Lit '': '', Str m, Lit '']''], [rq]))
      else
        (case getitem (json response) resource_key of
           Inl e \<Rightarrow> (Raise e, [rq])
         | Inr resources \<Rightarrow> (Ok resources, [rq])))"

text \<open>
  Modelled from the spec: \<open>resource_attributes_should_be_changed\<close> is not among the
  sources; the spec calls it the attribute-diffing helper and has the modules compare
  desired and observed attributes. The model finds the verifiable attributes whose wished
  value is set and is not the target's, and, if there is one, gives the wished values of
  all mutable attributes as the patch. Values are compared as they are written.
\<close>

fun pick :: "jval \<Rightarrow> string list \<Rightarrow> py_error + (string \<times> jval) list" where
  "pick wished [] = Inr []"
| "pick wished (attr # attrs) =
     (case getitem wished attr of
        Inl e \<Rightarrow> Inl e
      | Inr v \<Rightarrow> (case pick wished attrs of Inl e \<Rightarrow> Inl e | Inr kvs \<Rightarrow> Inr ((attr, v) # kvs)))"

fun differing :: "jval \<Rightarrow> jval \<Rightarrow> string list \<Rightarrow> py_error + string list" where
  "differing target wished [] = Inr []"
| "differing target wished (attr # attrs) =
     (case getitem wished attr of
        Inl e \<Rightarrow> Inl e
      | Inr v \<Rightarrow>
          if v = JNull then differing target wished attrs
          else
            (case getitem target attr of
               Inl e \<Rightarrow> Inl e
             | Inr t \<Rightarrow>
                 (case differing target wished attrs of
                    Inl e \<Rightarrow> Inl e
                  | Inr ds \<Rightarrow> Inr (if t \<noteq> v then attr # ds else ds))))"

definition resource_attributes_should_be_changed :: diff_fn where
  "resource_attributes_should_be_changed target wished verifiable_mutable_attributes mutable_attributes =
     (case differing target wished verifiable_mutable_attributes of
        Inl e \<Rightarrow> Raise e
      | Inr [] \<Rightarrow> Ok (JDict [])
      | Inr (attr # attrs) \<Rightarrow>
          (case pick wished mutable_attributes of Inl e \<Rightarrow> Raise e | Inr kvs \<Rightarrow> Ok (JDict kvs)))"

section \<open>Requests and states named in the statements\<close>

definition list_request :: "string \<Rightarrow> request" where
  "list_request endpoint = \<lparr>meth = GET, path = [Lit endpoint], data = None\<rparr>"

definition read_request :: "string \<Rightarrow> jval \<Rightarrow> request" where
  "read_request endpoint i = \<lparr>meth = GET, path = [Lit (endpoint @ ''/''), Str i], data = None\<rparr>"

definition post_request :: "string \<Rightarrow> jval \<Rightarrow> request" where
  "post_request endpoint d = \<lparr>meth = POST, path = [Lit endpoint], data = Some d\<rparr>"

definition patch_request :: "string \<Rightarrow> jval \<Rightarrow> jval \<Rightarrow> request" where
  "patch_request endpoint i d = \<lparr>meth = PATCH, path = [Lit (endpoint @ ''/''), Str i], data = Some d\<rparr>"

definition delete_request :: "string \<Rightarrow> jval \<Rightarrow> request" where
  "delete_request endpoint i = \<lparr>meth = DELETE, path = [Lit (endpoint @ ''/''), Str i], data = None\<rparr>"

text \<open>The API object after further requests, and the server's answer in a given state.\<close>

definition after :: "api \<Rightarrow> request list \<Rightarrow> api" where
  "after a rqs = a\<lparr>calls := calls a @ rqs\<rparr>"

definition answer :: "api \<Rightarrow> request \<Rightarrow> response" where
  "answer a rq = server a (calls a) rq"

text \<open>A request addresses an endpoint when it goes to the endpoint or to a resource under it.\<close>

definition addresses :: "string \<Rightarrow> request \<Rightarrow> bool" where
  "addresses endpoint rq =
     (case path rq of
        [Lit p] \<Rightarrow> p = endpoint
      | [Lit p, Str i] \<Rightarrow> p = endpoint @ ''/''
      | _ \<Rightarrow> False)"

text \<open>The resources of a listing that carry a given name.\<close>

definition named :: "string \<Rightarrow> jval \<Rightarrow> bool" where
  "named n r = (getitem r ''name'' = Inr (JStr n))"

text \<open>
  A later state of the API object lies within an endpoint of an earlier one when it still
  has that endpoint as its path and every request made in between addresses it.
\<close>

definition within :: "string \<Rightarrow> api \<Rightarrow> api \<Rightarrow> bool" where
  "within ep a b = (api_path b = ep \<and> (\<exists>rqs. calls b = calls a @ rqs \<and> list_all (addresses ep) rqs))"

section \<open>Sample runs\<close>

text \<open>
  Concrete servers and parameters for the sample runs: a scripted server answers the
  \<open>n\<close>-th request of a run with the \<open>n\<close>-th response of its script.
\<close>

definition reply :: "int \<Rightarrow> jval \<Rightarrow> response" where
  "reply code body = \<lparr>status_code = code, json = body, info = JDict [(''msg'', JStr ''OK'')]\<rparr>"

definition scripted :: "response list \<Rightarrow> request list \<Rightarrow> request \<Rightarrow> response" where
  "scripted rs history rq = (if length history < length rs then rs ! length history else reply 404 JNull)"

definition sample_api :: "bool \<Rightarrow> response list \<Rightarrow> api" where
  "sample_api cm rs = (Scaleway cm (scripted rs))\<lparr>api_path := ''ep''\<rparr>"

definition sample_wished_cn :: wished_cn where
  "sample_wished_cn =
     \<lparr>cn_state = Present, cn_namespace_id = ''ns'', cn_name = ''web'', cn_description = ''d'',
      cn_min_scale = None, cn_max_scale = Some 2, cn_environment_variables = [],
      cn_secret_environment_variables = [(''K'', JStr ''s3cret'')], cn_memory_limit = None,
      cn_timeout = None, cn_privacy = ''public'', cn_registry_image = ''img'',
      cn_max_concurrency = None, cn_protocol = ''http1'', cn_port = None, cn_redeploy = False\<rparr>"

definition listing :: "jval list \<Rightarrow> response" where
  "listing rs = reply 200 (JDict [(''containers'', JList rs), (''namespaces'', JList rs)])"

definition resource :: "string \<Rightarrow> string \<Rightarrow> string \<Rightarrow> jval" where
  "resource i n st = JDict [(''id'', JStr i), (''name'', JStr n), (''status'', JStr st)]"

definition sample_container :: jval where
  "sample_container =
     JDict [(''id'', JStr ''c1''), (''name'', JStr ''web''), (''status'', JStr ''ready''),
            (''description'', JStr ''d''), (''max_scale'', JInt 2),
            (''environment_variables'', JDict []), (''privacy'', JStr ''public''),
            (''registry_image'', JStr ''img''), (''protocol'', JStr ''http1''),
            (''secret_environment_variables'', JList [JDict [(''key'', JStr ''K''), (''value'', JStr ''s3cret'')]])]"

definition sample_wished_fn :: wished_fn where
  "sample_wished_fn =
     \<lparr>fn_state = Present, fn_project_id = ''p'', fn_name = ''web'', fn_description = ''d'',
      fn_environment_variables = [], fn_secret_environment_variables = [(''K'', JStr ''s3cret'')]\<rparr>"

definition sample_info_module :: info_module where
  "sample_info_module =
     \<lparr>inp_check_mode = False, inp_project_id = ''p'', inp_region = ''fr-par'', inp_name = ''web''\<rparr>"

definition creation_script :: "response list" where
  "creation_script =
     [listing [], reply 200 (resource ''c1'' ''web'' ''pending''),
      reply 200 (resource ''c1'' ''web'' ''ready''), reply 200 sample_container]"

definition twins :: "jval list" where
  "twins = [resource ''c0'' ''web'' ''ready'', resource ''c1'' ''web'' ''ready'']"

definition sample_cn_module :: cn_module where
  "sample_cn_module =
     \<lparr>cnp_check_mode = False, cnp_state = Present, cnp_namespace_id = ''ns'', cnp_region = ''fr-par'',
      cnp_name = ''web'', cnp_description = ''d'', cnp_min_scale = None, cnp_max_scale = Some 2,
      cnp_memory_limit = None, cnp_container_timeout = None, cnp_privacy = ''public'',
      cnp_registry_image = ''img'', cnp_max_concurrency = None, cnp_protocol = ''http1'',
      cnp_port = None, cnp_redeploy = False, cnp_environment_variables = [],
      cnp_secret_environment_variables = [(''K'', JStr ''s3cret'')]\<rparr>"

definition sample_fn_module :: fn_module where
  "sample_fn_module =
     \<lparr>fnp_check_mode = False, fnp_state = Present, fnp_project_id = ''p'', fnp_region = ''fr-par'',
      fnp_name = ''web'', fnp_description = ''d'', fnp_environment_variables = [],
      fnp_secret_environment_variables = [(''K'', JStr ''s3cret'')]\<rparr>"

definition failing_reread_script :: "response list" where
  "failing_reread_script =
     [listing [], reply 200 (resource ''c1'' ''web'' ''pending''),
      reply 200 (resource ''c1'' ''web'' ''ready''),
      reply 500 (JDict [(''message'', JStr ''internal error'')])]"

definition sample_namespace :: jval where
  "sample_namespace =
     JDict [(''id'', JStr ''n1''), (''name'', JStr ''web''), (''status'', JStr ''ready''),
            (''description'', JStr ''d''), (''environment_variables'', JDict []),
            (''secret_environment_variables'',
             JList [JDict [(''key'', JStr ''K''), (''hashed_value'', JStr ''h4sh'')]])]"

definition stale_container :: jval where
  "stale_container =
     JDict [(''id'', JStr ''c1''), (''name'', JStr ''web''), (''status'', JStr ''ready''),
            (''description'', JStr ''old''), (''max_scale'', JInt 2),
            (''environment_variables'', JDict []), (''privacy'', JStr ''public''),
            (''registry_image'', JStr ''img''), (''protocol'', JStr ''http1'')]"

section \<open>Basic facts about the steps\<close>

lemma and_then_Ok [simp]: "and_then (Ok x, a) k = k x a"
  by (simp add: and_then_def)

lemma and_then_Fail [simp]: "and_then (Fail_json m, a) k = (Fail_json m, a)"
  by (simp add: and_then_def)

lemma and_then_Raise [simp]: "and_then (Raise e, a) k = (Raise e, a)"
  by (simp add: and_then_def)

lemma lift_Inr [simp]: "lift (Inr x) a = (Ok x, a)"
  by (simp add: lift_def)

lemma lift_Inl [simp]: "lift (Inl e) a = (Raise e, a)"
  by (simp add: lift_def)

lemma keyword_call_target_wished [simp]:
  "keyword_call d ''target'' ''wished'' t w v m = d t w v m"
  by (simp add: keyword_call_def)

lemma keyword_call_target_cn [simp]:
  "keyword_call d ''target_cn'' ''wished_cn'' t w v m = Raise TypeError"
  by (simp add: keyword_call_def)

lemma and_then_lift: "and_then (lift v a) k = (case v of Inl e \<Rightarrow> (Raise e, a) | Inr x \<Rightarrow> k x a)"
  by (simp add: lift_def split: sum.splits)

lemma snd_lift [simp]: "snd (lift v a) = a"
  by (simp add: lift_def split: sum.splits)

lemma after_Nil [simp]: "after a [] = a"
  by (simp add: after_def)

lemma after_after [simp]: "after (after a xs) ys = after a (xs @ ys)"
  by (simp add: after_def)

lemma after_fields [simp]:
  "api_path (after a xs) = api_path a"
  "check_mode (after a xs) = check_mode a"
  "server (after a xs) = server a"
  "calls (after a xs) = calls a @ xs"
  "warned (after a xs) = warned a"
  by (simp_all add: after_def)

lemma api_warn_fields [simp]:
  "api_path (api_warn x a) = api_path a"
  "check_mode (api_warn x a) = check_mode a"
  "server (api_warn x a) = server a"
  "calls (api_warn x a) = calls a"
  by (simp_all add: api_warn_def)

lemma after_api_warn: "after (api_warn x a) xs = api_warn x (after a xs)"
  by (simp add: after_def api_warn_def)

lemma send_eq: "send rq a = (answer a rq, after a [rq])"
  by (simp add: send_def answer_def after_def)

lemma api_get_list: "api_get [Lit ep] a = (answer a (list_request ep), after a [list_request ep])"
  by (simp add: api_get_def send_eq list_request_def)

lemma api_get_read:
  "api_get [Lit (ep @ ''/''), Str i] a = (answer a (read_request ep i), after a [read_request ep i])"
  by (simp add: api_get_def send_eq read_request_def)

lemma api_post_eq: "api_post [Lit ep] d a = (answer a (post_request ep d), after a [post_request ep d])"
  by (simp add: api_post_def send_eq post_request_def)

lemma api_patch_eq:
  "api_patch [Lit (ep @ ''/''), Str i] d a = (answer a (patch_request ep i d), after a [patch_request ep i d])"
  by (simp add: api_patch_def send_eq patch_request_def)

lemma api_delete_eq:
  "api_delete [Lit (ep @ ''/''), Str i] a = (answer a (delete_request ep i), after a [delete_request ep i])"
  by (simp add: api_delete_def send_eq delete_request_def)

lemmas api_eqs = api_get_list api_get_read api_post_eq api_patch_eq api_delete_eq resource_path_def

lemma helper_eq: "helper h a = (fst h, after a (snd h))"
  by (simp add: helper_def after_def)

lemma answer_api_warn [simp]: "answer (api_warn x a) rq = answer a rq"
  by (simp add: answer_def)

lemma snd_list_by_name: "snd (list_by_name what key a) = after a [list_request (api_path a)]"
  by (simp add: list_by_name_def api_get_list and_then_lift split: sum.splits)

lemma list_by_name_eq:
  "list_by_name what key a = (fst (list_by_name what key a), after a [list_request (api_path a)])"
  by (simp add: prod_eq_iff snd_list_by_name)

lemma snd_fn_list_by_name: "snd (fn_list_by_name f a) = after a (snd (f a ''namespaces''))"
  by (cases "fst (f a ''namespaces'')")
     (simp_all add: fn_list_by_name_def helper_eq and_then_lift split: sum.splits)

lemma delitem_redeploy:
  "delitem (payload_from_wished_cn wished) ''redeploy'' = Inr (butlast (payload_from_wished_cn wished))"
  by (simp add: delitem_def payload_from_wished_cn_def)

lemma cn_present_create:
  assumes "fst (list_by_name ''containers'' ''containers'' a) = Ok lk"
    and "lk (JStr (cn_name wished)) = None"
    and "\<not> check_mode a"
  shows "cn_present_strategy w d a wished =
     (let ep = api_path a;
          pl = JDict (butlast (payload_from_wished_cn wished));
          a2 = after a [list_request ep];
          creation_response = answer a2 (post_request ep pl);
          a3 = api_warn pl (after a [list_request ep, post_request ep pl])
      in if \<not> ok creation_response then
           and_then (lift (getitem (info creation_response) ''msg'') a3) (\<lambda>info_msg a4.
           and_then (lift (getitem (json creation_response) ''message'') a4) (\<lambda>message a5.
             (Fail_json [Lit ''Error during container creation: '', Str info_msg,
                         Lit ('': '' @ apostrophe), Str message, Lit (apostrophe @ '' (''),
                         Str (json creation_response), Lit '')''], a5)))
         else
           and_then (helper (w a3 (json creation_response) cn_STABLE_STATES False) a3) (\<lambda>_ a4.
           and_then (lift (getitem (json creation_response) ''id'') a4) (\<lambda>i a5.
             (Ok (True, json (answer a5 (read_request (api_path a5) i))), after a5 [read_request (api_path a5) i]))))"
proof -
  have L: "list_by_name ''containers'' ''containers'' a = (Ok lk, after a [list_request (api_path a)])"
    using list_by_name_eq [of "''containers''" "''containers''" a] assms(1) by simp
  show ?thesis
    unfolding cn_present_strategy_def L
    using assms(2,3)
    by (simp add: delitem_redeploy api_eqs after_api_warn Let_def)
qed


lemma and_then_helper:
  "and_then (helper h a) k =
     (case fst h of
        Ok x \<Rightarrow> k x (after a (snd h))
      | Fail_json m \<Rightarrow> (Fail_json m, after a (snd h))
      | Raise e \<Rightarrow> (Raise e, after a (snd h)))"
  by (simp add: helper_eq split: res.splits)



lemma sample_api_simps [simp]:
  "api_path (sample_api cm rs) = ''ep''" "check_mode (sample_api cm rs) = cm"
  "calls (sample_api cm rs) = []" "server (sample_api cm rs) = scripted rs"
  by (simp_all add: sample_api_def Scaleway_def)

lemma fn_list_by_name_eq:
  "fn_list_by_name f a = (fst (fn_list_by_name f a), after a (snd (f a ''namespaces'')))"
  by (simp add: prod_eq_iff snd_fn_list_by_name)

lemma cn_present_check_state:
  assumes "check_mode a"
  shows "snd (cn_present_strategy w d a wished) = after a [list_request (api_path a)]"
proof -
  obtain r where L: "list_by_name ''containers'' ''containers'' a = (r, after a [list_request (api_path a)])"
    using list_by_name_eq by blast
  show ?thesis
    by (cases r) (simp_all add: cn_present_strategy_def L assms Let_def split: option.splits)
qed

lemma cn_present_listed:
  assumes "fst (list_by_name ''containers'' ''containers'' a) = Ok lk"
    and "lk (JStr (cn_name wished)) = Some t"
  shows "cn_present_strategy w d a wished = (Raise TypeError, after a [list_request (api_path a)])"
proof -
  have L: "list_by_name ''containers'' ''containers'' a = (Ok lk, after a [list_request (api_path a)])"
    using list_by_name_eq [of "''containers''" "''containers''" a] assms(1) by simp
  show ?thesis unfolding cn_present_strategy_def L using assms(2) by simp
qed

lemma cn_present_check_create:
  assumes "check_mode a" and "fst (list_by_name ''containers'' ''containers'' a) = Ok lk"
    and "lk (JStr (cn_name wished)) = None"
  shows "fst (cn_present_strategy w d a wished) = Ok (True, status_summary ''A container would be created.'')"
proof -
  have L: "list_by_name ''containers'' ''containers'' a = (Ok lk, after a [list_request (api_path a)])"
    using list_by_name_eq [of "''containers''" "''containers''" a] assms(2) by simp
  show ?thesis unfolding cn_present_strategy_def L using assms(1,3) by simp
qed

lemma cn_absent_check_state:
  assumes "check_mode a"
  shows "snd (cn_absent_strategy w a wished) = after a [list_request (api_path a)]"
proof -
  obtain r where L: "list_by_name ''containers'' ''containers'' a = (r, after a [list_request (api_path a)])"
    using list_by_name_eq by blast
  show ?thesis
    by (cases r) (simp_all add: cn_absent_strategy_def L assms split: option.splits)
qed

lemma cn_absent_check_destroy:
  assumes "check_mode a" and "fst (list_by_name ''containers'' ''containers'' a) = Ok lk"
    and "lk (JStr (cn_name wished)) = Some t"
  shows "fst (cn_absent_strategy w a wished) = Ok (True, status_summary ''Container would be destroyed'')"
proof -
  have L: "list_by_name ''containers'' ''containers'' a = (Ok lk, after a [list_request (api_path a)])"
    using list_by_name_eq [of "''containers''" "''containers''" a] assms(2) by simp
  show ?thesis unfolding cn_absent_strategy_def L using assms(1,3) by simp
qed

lemma cn_absent_converged:
  assumes "fst (list_by_name ''containers'' ''containers'' a) = Ok lk"
    and "lk (JStr (cn_name wished)) = None"
  shows "cn_absent_strategy w a wished = (Ok (False, JDict []), after a [list_request (api_path a)])"
proof -
  have L: "list_by_name ''containers'' ''containers'' a = (Ok lk, after a [list_request (api_path a)])"
    using list_by_name_eq [of "''containers''" "''containers''" a] assms(1) by simp
  show ?thesis unfolding cn_absent_strategy_def L using assms(2) by simp
qed

lemma fn_present_check_state:
  assumes "check_mode a"
  shows "snd (fn_present_strategy w d f a wished) = after a (snd (f a ''namespaces''))"
proof -
  obtain r where L: "fn_list_by_name f a = (r, after a (snd (f a ''namespaces'')))"
    using fn_list_by_name_eq by blast
  show ?thesis
  proof (cases r)
    case (Ok lk)
    show ?thesis
    proof (cases "lk (JStr (fn_name wished))")
      case None
      then show ?thesis unfolding fn_present_strategy_def L Ok using assms by simp
    next
      case (Some t)
      then show ?thesis unfolding fn_present_strategy_def L Ok using assms
        by (cases "d t (JDict (payload_from_wished_fn wished)) fn_VERIFIABLE_MUTABLE_ATTRIBUTES fn_MUTABLE_ATTRIBUTES")
           simp_all
    qed
  qed (simp_all add: fn_present_strategy_def L)
qed

lemma fn_present_check_create:
  assumes "check_mode a" and "fst (fn_list_by_name f a) = Ok lk"
    and "lk (JStr (fn_name wished)) = None"
  shows "fst (fn_present_strategy w d f a wished) = Ok (True, status_summary ''A function namespace would be created.'')"
proof -
  have L: "fn_list_by_name f a = (Ok lk, after a (snd (f a ''namespaces'')))"
    using fn_list_by_name_eq [of f a] assms(2) by simp
  show ?thesis unfolding fn_present_strategy_def L using assms(1,3) by simp
qed

lemma fn_present_check_update:
  assumes "check_mode a" and "fst (fn_list_by_name f a) = Ok lk"
    and "lk (JStr (fn_name wished)) = Some t"
    and "d t (JDict (payload_from_wished_fn wished)) fn_VERIFIABLE_MUTABLE_ATTRIBUTES fn_MUTABLE_ATTRIBUTES = Ok p"
    and "truthy p"
  shows "fst (fn_present_strategy w d f a wished) = Ok (True, status_summary ''Function namespace attributes would be changed.'')"
proof -
  have L: "fn_list_by_name f a = (Ok lk, after a (snd (f a ''namespaces'')))"
    using fn_list_by_name_eq [of f a] assms(2) by simp
  show ?thesis unfolding fn_present_strategy_def L using assms(1,3,4,5) by simp
qed

lemma fn_present_converged:
  assumes "fst (fn_list_by_name f a) = Ok lk"
    and "lk (JStr (fn_name wished)) = Some t"
    and "d t (JDict (payload_from_wished_fn wished)) fn_VERIFIABLE_MUTABLE_ATTRIBUTES fn_MUTABLE_ATTRIBUTES = Ok p"
    and "\<not> truthy p"
  shows "fn_present_strategy w d f a wished = (Ok (False, t), after a (snd (f a ''namespaces'')))"
proof -
  have L: "fn_list_by_name f a = (Ok lk, after a (snd (f a ''namespaces'')))"
    using fn_list_by_name_eq [of f a] assms(1) by simp
  show ?thesis unfolding fn_present_strategy_def L using assms(2,3,4) by simp
qed

lemma fn_absent_check_state:
  assumes "check_mode a"
  shows "snd (fn_absent_strategy w f a wished) = after a (snd (f a ''namespaces''))"
proof -
  obtain r where L: "fn_list_by_name f a = (r, after a (snd (f a ''namespaces'')))"
    using fn_list_by_name_eq by blast
  show ?thesis
    by (cases r) (simp_all add: fn_absent_strategy_def L assms split: option.splits)
qed

lemma fn_absent_check_destroy:
  assumes "check_mode a" and "fst (fn_list_by_name f a) = Ok lk"
    and "lk (JStr (fn_name wished)) = Some t"
  shows "fst (fn_absent_strategy w f a wished) = Ok (True, status_summary ''Function namespace would be destroyed'')"
proof -
  have L: "fn_list_by_name f a = (Ok lk, after a (snd (f a ''namespaces'')))"
    using fn_list_by_name_eq [of f a] assms(2) by simp
  show ?thesis unfolding fn_absent_strategy_def L using assms(1,3) by simp
qed

lemma fn_absent_converged:
  assumes "fst (fn_list_by_name f a) = Ok lk"
    and "lk (JStr (fn_name wished)) = None"
  shows "fn_absent_strategy w f a wished = (Ok (False, JDict []), after a (snd (f a ''namespaces'')))"
proof -
  have L: "fn_list_by_name f a = (Ok lk, after a (snd (f a ''namespaces'')))"
    using fn_list_by_name_eq [of f a] assms(1) by simp
  show ?thesis unfolding fn_absent_strategy_def L using assms(2) by simp
qed

lemma sample_listing_one:
  "fst (list_by_name ''containers'' ''containers'' (sample_api cm (listing [sample_container] # rs)))
     = Ok [JStr ''web'' \<mapsto> sample_container]"
  by (simp add: list_by_name_def api_eqs answer_def scripted_def listing_def reply_def ok_def
      sample_container_def)

lemma sample_listing_none:
  "fst (list_by_name ''containers'' ''containers'' (sample_api cm (listing [] # rs))) = Ok Map.empty"
  by (simp add: list_by_name_def api_eqs answer_def scripted_def listing_def reply_def ok_def)

lemma snd_finish [simp]: "snd (finish flt key s ra) = snd ra"
  by (cases ra; cases "fst ra")
     (auto simp: finish_def split: res.splits)

lemma snd_info_finish [simp]: "snd (info_finish flt key ra) = snd ra"
  by (cases ra; cases "fst ra") (simp_all add: info_finish_def)

lemma info_finish_changed:
  "fst (info_finish flt key ra) = Exit_json c k v \<Longrightarrow> c = False"
  by (cases ra; cases "fst ra")
     (auto simp: info_finish_def finish_def split: res.splits)

lemma info_finish_Fail [simp]: "info_finish flt key (Fail_json m, a) = (Exit_fail m, a)"
  by (simp add: info_finish_def finish_def)

lemma cr_info_miss:
  assumes "fst (list_by_name ''container registries'' ''namespaces'' a) = Ok lk"
    and "lk (JStr (in_name wished)) = None"
  shows "cr_info_strategy a wished =
     (Fail_json [Lit (''Error during container registries lookup: Unable to find container registry named ''
                      @ apostrophe @ in_name wished @ apostrophe @ '' in project ''
                      @ apostrophe @ in_project_id wished @ apostrophe)],
      after a [list_request (api_path a)])"
proof -
  have L: "list_by_name ''container registries'' ''namespaces'' a = (Ok lk, after a [list_request (api_path a)])"
    using list_by_name_eq [of "''container registries''" "''namespaces''" a] assms(1) by simp
  show ?thesis unfolding cr_info_strategy_def L using assms(2) by simp
qed

lemma fn_info_miss:
  assumes "fst (list_by_name ''function namespaces'' ''namespaces'' a) = Ok lk"
    and "lk (JStr (in_name wished)) = None"
  shows "fn_info_strategy a wished =
     (Fail_json [Lit (''Error during function namespace lookup: Unable to find function namespace named ''
                      @ apostrophe @ in_name wished @ apostrophe @ '' in project ''
                      @ apostrophe @ in_project_id wished @ apostrophe)],
      after a [list_request (api_path a)])"
proof -
  have L: "list_by_name ''function namespaces'' ''namespaces'' a = (Ok lk, after a [list_request (api_path a)])"
    using list_by_name_eq [of "''function namespaces''" "''namespaces''" a] assms(1) by simp
  show ?thesis unfolding fn_info_strategy_def L using assms(2) by simp
qed

lemma cr_info_only_reads:
  "\<exists>rqs. snd (cr_info_strategy a wished) = after a rqs \<and> (\<forall>rq\<in>set rqs. meth rq = GET)"
proof -
  obtain r where L: "list_by_name ''container registries'' ''namespaces'' a = (r, after a [list_request (api_path a)])"
    using list_by_name_eq by blast
  have g: "meth (list_request (api_path a)) = GET"
    by (simp add: list_request_def)
  show ?thesis
  proof (cases r)
    case (Ok lk)
    show ?thesis
    proof (cases "lk (JStr (in_name wished))")
      case None
      then have "snd (cr_info_strategy a wished) = after a [list_request (api_path a)]"
        unfolding cr_info_strategy_def L Ok by simp
      then show ?thesis using g by (intro exI [of _ "[list_request (api_path a)]"]) simp
    next
      case (Some t)
      show ?thesis
      proof (cases "getitem t ''id''")
        case (Inl e)
        then have "snd (cr_info_strategy a wished) = after a [list_request (api_path a)]"
          unfolding cr_info_strategy_def L Ok using Some by simp
        then show ?thesis using g by (intro exI [of _ "[list_request (api_path a)]"]) simp
      next
        case (Inr i)
        then have "snd (cr_info_strategy a wished) =
            after a [list_request (api_path a), read_request (api_path a) i]"
          unfolding cr_info_strategy_def L Ok using Some
          by (simp add: api_eqs and_then_lift split: sum.splits)
        then show ?thesis using g
          by (intro exI [of _ "[list_request (api_path a), read_request (api_path a) i]"])
             (simp add: read_request_def)
      qed
    qed
  next
    case (Fail_json m)
    then have "snd (cr_info_strategy a wished) = after a [list_request (api_path a)]"
      unfolding cr_info_strategy_def L by simp
    then show ?thesis using g by (intro exI [of _ "[list_request (api_path a)]"]) simp
  next
    case (Raise e)
    then have "snd (cr_info_strategy a wished) = after a [list_request (api_path a)]"
      unfolding cr_info_strategy_def L by simp
    then show ?thesis using g by (intro exI [of _ "[list_request (api_path a)]"]) simp
  qed
qed

lemma fn_info_only_reads:
  "\<exists>rqs. snd (fn_info_strategy a wished) = after a rqs \<and> (\<forall>rq\<in>set rqs. meth rq = GET)"
proof -
  obtain r where L: "list_by_name ''function namespaces'' ''namespaces'' a = (r, after a [list_request (api_path a)])"
    using list_by_name_eq by blast
  have g: "meth (list_request (api_path a)) = GET"
    by (simp add: list_request_def)
  show ?thesis
  proof (cases r)
    case (Ok lk)
    show ?thesis
    proof (cases "lk (JStr (in_name wished))")
      case None
      then have "snd (fn_info_strategy a wished) = after a [list_request (api_path a)]"
        unfolding fn_info_strategy_def L Ok by simp
      then show ?thesis using g by (intro exI [of _ "[list_request (api_path a)]"]) simp
    next
      case (Some t)
      show ?thesis
      proof (cases "getitem t ''id''")
        case (Inl e)
        then have "snd (fn_info_strategy a wished) = after a [list_request (api_path a)]"
          unfolding fn_info_strategy_def L Ok using Some by simp
        then show ?thesis using g by (intro exI [of _ "[list_request (api_path a)]"]) simp
      next
        case (Inr i)
        then have "snd (fn_info_strategy a wished) =
            after a [list_request (api_path a), read_request (api_path a) i]"
          unfolding fn_info_strategy_def L Ok using Some
          by (simp add: api_eqs and_then_lift split: sum.splits)
        then show ?thesis using g
          by (intro exI [of _ "[list_request (api_path a), read_request (api_path a) i]"])
             (simp add: read_request_def)
      qed
    qed
  next
    case (Fail_json m)
    then have "snd (fn_info_strategy a wished) = after a [list_request (api_path a)]"
      unfolding fn_info_strategy_def L by simp
    then show ?thesis using g by (intro exI [of _ "[list_request (api_path a)]"]) simp
  next
    case (Raise e)
    then have "snd (fn_info_strategy a wished) = after a [list_request (api_path a)]"
      unfolding fn_info_strategy_def L by simp
    then show ?thesis using g by (intro exI [of _ "[list_request (api_path a)]"]) simp
  qed
qed

lemma calls_Scaleway [simp]: "calls ((Scaleway cm srv)\<lparr>api_path := ep\<rparr>) = []"
  by (simp add: Scaleway_def)

lemma sample_info_listing:
  "fst (list_by_name what ''namespaces'' ((Scaleway cm (scripted (listing rs # rest)))\<lparr>api_path := ep\<rparr>))
     = (case name_dict Map.empty rs of Inl e \<Rightarrow> Raise e | Inr lk \<Rightarrow> Ok lk)"
  by (simp add: list_by_name_def api_eqs answer_def scripted_def listing_def reply_def ok_def
      Scaleway_def split: sum.splits)

lemma helper_Ok: "h = (Ok u, rqs) \<Longrightarrow> helper h a = (Ok u, after a rqs)"
  by (simp add: helper_eq)

lemma cn_present_created:
  assumes "\<not> check_mode a"
    and "fst (list_by_name ''containers'' ''containers'' a) = Ok lk"
    and "lk (JStr (cn_name wished)) = None"
    and "pl = JDict (butlast (payload_from_wished_cn wished))"
    and "cr = answer (after a [list_request (api_path a)]) (post_request (api_path a) pl)"
    and "ok cr"
    and "am = api_warn pl (after a [list_request (api_path a), post_request (api_path a) pl])"
    and "w am (json cr) cn_STABLE_STATES False = (Ok u, polls)"
    and "getitem (json cr) ''id'' = Inr i"
  shows "cn_present_strategy w d a wished =
     (Ok (True, json (answer (after am polls) (read_request (api_path a) i))),
      after am (polls @ [read_request (api_path a) i]))"
  unfolding cn_present_create [OF assms(2,3,1)] Let_def
  using assms(4-9) by (simp add: helper_Ok)

lemma cn_absent_deleted:
  assumes "\<not> check_mode a"
    and "fst (list_by_name ''containers'' ''containers'' a) = Ok lk"
    and "lk (JStr (cn_name wished)) = Some t"
    and "w (after a [list_request (api_path a)]) t cn_STABLE_STATES True = (Ok u, polls)"
    and "getitem t ''id'' = Inr i"
    and "am = after a (list_request (api_path a) # polls)"
    and "dr = answer am (delete_request (api_path a) i)"
    and "ok dr"
    and "w (after am [delete_request (api_path a) i]) t cn_STABLE_STATES False = (Ok u', polls')"
  shows "cn_absent_strategy w a wished =
     (Ok (True, json dr), after am (delete_request (api_path a) i # polls'))"
proof -
  have L: "list_by_name ''containers'' ''containers'' a = (Ok lk, after a [list_request (api_path a)])"
    using list_by_name_eq [of "''containers''" "''containers''" a] assms(2) by simp
  show ?thesis
    unfolding cn_absent_strategy_def L
    using assms(1,3-9) by (simp add: api_eqs helper_Ok)
qed

lemma fn_present_created:
  assumes "\<not> check_mode a"
    and "fst (fn_list_by_name f a) = Ok lk"
    and "lk (JStr (fn_name wished)) = None"
    and "pl = JDict (payload_from_wished_fn wished)"
    and "al = after a (snd (f a ''namespaces''))"
    and "cr = answer al (post_request (api_path a) pl)"
    and "ok cr"
    and "am = api_warn pl (after al [post_request (api_path a) pl])"
    and "w am (json cr) fn_STABLE_STATES False = (Ok u, polls)"
    and "getitem (json cr) ''id'' = Inr i"
  shows "fn_present_strategy w d f a wished =
     (Ok (True, json (answer (after am polls) (read_request (api_path a) i))),
      after am (polls @ [read_request (api_path a) i]))"
proof -
  have L: "fn_list_by_name f a = (Ok lk, after a (snd (f a ''namespaces'')))"
    using fn_list_by_name_eq [of f a] assms(2) by simp
  show ?thesis
    unfolding fn_present_strategy_def L
    using assms(1,3-10) by (simp add: api_eqs helper_Ok after_api_warn Let_def)
qed

lemma fn_present_updated:
  assumes "\<not> check_mode a"
    and "fst (fn_list_by_name f a) = Ok lk"
    and "lk (JStr (fn_name wished)) = Some t"
    and "d t (JDict (payload_from_wished_fn wished)) fn_VERIFIABLE_MUTABLE_ATTRIBUTES fn_MUTABLE_ATTRIBUTES = Ok p"
    and "truthy p"
    and "getitem t ''id'' = Inr i"
    and "al = after a (snd (f a ''namespaces''))"
    and "pr = answer al (patch_request (api_path a) i p)"
    and "ok pr"
    and "am = after al [patch_request (api_path a) i p]"
    and "w am t fn_STABLE_STATES False = (Ok u, polls)"
  shows "fn_present_strategy w d f a wished =
     (Ok (True, json (answer (after am polls) (read_request (api_path a) i))),
      after am (polls @ [read_request (api_path a) i]))"
proof -
  have L: "fn_list_by_name f a = (Ok lk, after a (snd (f a ''namespaces'')))"
    using fn_list_by_name_eq [of f a] assms(2) by simp
  show ?thesis
    unfolding fn_present_strategy_def L
    using assms(1,3-11) by (simp add: api_eqs helper_Ok)
qed

lemma fn_absent_deleted:
  assumes "\<not> check_mode a"
    and "fst (fn_list_by_name f a) = Ok lk"
    and "lk (JStr (fn_name wished)) = Some t"
    and "al = after a (snd (f a ''namespaces''))"
    and "w al t fn_STABLE_STATES True = (Ok u, polls)"
    and "getitem t ''id'' = Inr i"
    and "am = after al polls"
    and "dr = answer am (delete_request (api_path a) i)"
    and "ok dr"
    and "w (after am [delete_request (api_path a) i]) t fn_STABLE_STATES False = (Ok u', polls')"
  shows "fn_absent_strategy w f a wished =
     (Ok (True, json dr), after am (delete_request (api_path a) i # polls'))"
proof -
  have L: "fn_list_by_name f a = (Ok lk, after a (snd (f a ''namespaces'')))"
    using fn_list_by_name_eq [of f a] assms(2) by simp
  show ?thesis
    unfolding fn_absent_strategy_def L
    using assms(1,3-10) by (simp add: api_eqs helper_Ok)
qed

lemma answer_sample:
  "length xs = n \<Longrightarrow> n < length rs \<Longrightarrow> answer (after (sample_api cm rs) xs) rq = rs ! n"
  by (simp add: answer_def scripted_def)

lemma name_dict_last:
  "name_dict m xs = Inr lk \<Longrightarrow>
     lk (JStr n) = (case filter (named n) xs of [] \<Rightarrow> m (JStr n) | y # ys \<Rightarrow> Some (last (y # ys)))"
proof (induction xs arbitrary: m)
  case Nil
  then show ?case by simp
next
  case (Cons x xs)
  show ?case
  proof (cases "getitem x ''name''")
    case (Inl e)
    with Cons.prems show ?thesis by simp
  next
    case (Inr nm)
    with Cons.prems have h: "hashable nm" and r: "name_dict (m(nm \<mapsto> x)) xs = Inr lk"
      by (simp_all split: if_splits)
    have ih: "lk (JStr n) =
        (case filter (named n) xs of [] \<Rightarrow> (m(nm \<mapsto> x)) (JStr n) | y # ys \<Rightarrow> Some (last (y # ys)))"
      using Cons.IH [OF r] .
    show ?thesis
    proof (cases "nm = JStr n")
      case True
      then have "named n x" using Inr by (simp add: named_def)
      then show ?thesis using ih True by (simp split: list.splits)
    next
      case False
      then have "\<not> named n x" using Inr by (simp add: named_def)
      then show ?thesis using ih False by (simp split: list.splits)
    qed
  qed
qed

lemma list_by_name_built:
  assumes "ok (answer a (list_request (api_path a)))"
    and "getitem (json (answer a (list_request (api_path a)))) key = Inr l"
    and "py_iter l = Inr xs"
    and "name_dict Map.empty xs = Inr lk"
  shows "fst (list_by_name what key a) = Ok lk"
  using assms by (simp add: list_by_name_def api_eqs)

lemma fn_list_by_name_built:
  assumes "fst (f a ''namespaces'') = Ok l"
    and "py_iter l = Inr xs"
    and "name_dict Map.empty xs = Inr lk"
  shows "fst (fn_list_by_name f a) = Ok lk"
  using assms by (simp add: fn_list_by_name_def helper_eq)

lemma cr_info_read:
  assumes "fst (list_by_name ''container registries'' ''namespaces'' a) = Ok lk"
    and "lk (JStr (in_name wished)) = Some t"
    and "getitem t ''id'' = Inr i"
  shows "snd (cr_info_strategy a wished) = after a [list_request (api_path a), read_request (api_path a) i]"
proof -
  have L: "list_by_name ''container registries'' ''namespaces'' a = (Ok lk, after a [list_request (api_path a)])"
    using list_by_name_eq [of "''container registries''" "''namespaces''" a] assms(1) by simp
  show ?thesis unfolding cr_info_strategy_def L using assms(2,3)
    by (simp add: api_eqs and_then_lift split: sum.splits)
qed

lemma fn_info_read:
  assumes "fst (list_by_name ''function namespaces'' ''namespaces'' a) = Ok lk"
    and "lk (JStr (in_name wished)) = Some t"
    and "getitem t ''id'' = Inr i"
  shows "snd (fn_info_strategy a wished) = after a [list_request (api_path a), read_request (api_path a) i]"
proof -
  have L: "list_by_name ''function namespaces'' ''namespaces'' a = (Ok lk, after a [list_request (api_path a)])"
    using list_by_name_eq [of "''function namespaces''" "''namespaces''" a] assms(1) by simp
  show ?thesis unfolding fn_info_strategy_def L using assms(2,3)
    by (simp add: api_eqs and_then_lift split: sum.splits)
qed

lemma cn_absent_delete_calls:
  assumes "\<not> check_mode a"
    and "fst (list_by_name ''containers'' ''containers'' a) = Ok lk"
    and "lk (JStr (cn_name wished)) = Some t"
    and "w (after a [list_request (api_path a)]) t cn_STABLE_STATES True = (Ok u, polls)"
    and "getitem t ''id'' = Inr i"
  shows "\<exists>rest. calls (snd (cn_absent_strategy w a wished)) =
           calls a @ list_request (api_path a) # polls @ delete_request (api_path a) i # rest"
proof -
  have L: "list_by_name ''containers'' ''containers'' a = (Ok lk, after a [list_request (api_path a)])"
    using list_by_name_eq [of "''containers''" "''containers''" a] assms(2) by simp
  show ?thesis
    unfolding cn_absent_strategy_def L
    using assms(1,3-5)
    by (simp add: api_eqs helper_Ok and_then_helper split: res.splits)
qed

lemma fn_absent_delete_calls:
  assumes "\<not> check_mode a"
    and "fst (fn_list_by_name f a) = Ok lk"
    and "lk (JStr (fn_name wished)) = Some t"
    and "w (after a (snd (f a ''namespaces''))) t fn_STABLE_STATES True = (Ok u, polls)"
    and "getitem t ''id'' = Inr i"
  shows "\<exists>rest. calls (snd (fn_absent_strategy w f a wished)) =
           calls a @ snd (f a ''namespaces'') @ polls @ delete_request (api_path a) i # rest"
proof -
  have L: "fn_list_by_name f a = (Ok lk, after a (snd (f a ''namespaces'')))"
    using fn_list_by_name_eq [of f a] assms(2) by simp
  show ?thesis
    unfolding fn_absent_strategy_def L
    using assms(1,3-5)
    by (simp add: api_eqs helper_Ok and_then_helper split: res.splits)
qed

lemma fn_present_patch_calls:
  assumes "\<not> check_mode a"
    and "fst (fn_list_by_name f a) = Ok lk"
    and "lk (JStr (fn_name wished)) = Some t"
    and "d t (JDict (payload_from_wished_fn wished)) fn_VERIFIABLE_MUTABLE_ATTRIBUTES fn_MUTABLE_ATTRIBUTES = Ok p"
    and "truthy p"
    and "getitem t ''id'' = Inr i"
  shows "\<exists>rest. calls (snd (fn_present_strategy w d f a wished)) =
           calls a @ snd (f a ''namespaces'') @ patch_request (api_path a) i p # rest"
proof -
  have L: "fn_list_by_name f a = (Ok lk, after a (snd (f a ''namespaces'')))"
    using fn_list_by_name_eq [of f a] assms(2) by simp
  show ?thesis
    unfolding fn_present_strategy_def L
    using assms(1,3-6)
    by (simp add: api_eqs and_then_helper and_then_lift split: res.splits sum.splits)
qed

lemma within_refl: "api_path a = ep \<Longrightarrow> within ep a a"
  by (simp add: within_def)

lemma within_after:
  "within ep a b \<Longrightarrow> list_all (addresses ep) rqs \<Longrightarrow> within ep a (after b rqs)"
  by (auto simp: within_def)

lemma within_warn: "within ep a b \<Longrightarrow> within ep a (api_warn x b)"
  by (auto simp: within_def)

lemma within_path: "within ep a b \<Longrightarrow> api_path b = ep"
  by (simp add: within_def)

lemma addresses_simps [simp]:
  "addresses ep (list_request ep)" "addresses ep (read_request ep i)"
  "addresses ep (post_request ep x)" "addresses ep (patch_request ep i x)"
  "addresses ep (delete_request ep i)"
  by (simp_all add: addresses_def list_request_def read_request_def post_request_def
      patch_request_def delete_request_def)

lemma within_and_then:
  assumes "within ep a (snd ra)"
    and "\<And>x b. within ep a b \<Longrightarrow> within ep a (snd (k x b))"
  shows "within ep a (snd (and_then ra k))"
  using assms by (cases ra; cases "fst ra") (auto simp: and_then_def)

lemma within_lift: "within ep a b \<Longrightarrow> within ep a (snd (lift v b))"
  by simp

lemma within_helper:
  "within ep a b \<Longrightarrow> list_all (addresses (api_path b)) (snd h) \<Longrightarrow> within ep a (snd (helper h b))"
  by (auto simp: helper_eq within_def)

lemma within_list_by_name: "within ep a b \<Longrightarrow> within ep a (snd (list_by_name what key b))"
  by (auto simp: snd_list_by_name within_def)

lemma within_pair: "within ep a b \<Longrightarrow> within ep a (snd (r, b))"
  by simp

lemma within_get_list:
  "within ep a b \<Longrightarrow> (\<And>b'. within ep a b' \<Longrightarrow> within ep a (snd (k (answer b (list_request ep)) b')))
     \<Longrightarrow> within ep a (snd (case api_get [Lit (api_path b)] b of (r, b') \<Rightarrow> k r b'))"
  by (auto simp: api_eqs within_def)

lemma within_get_read:
  "within ep a b \<Longrightarrow> (\<And>b'. within ep a b' \<Longrightarrow> within ep a (snd (k (answer b (read_request ep i)) b')))
     \<Longrightarrow> within ep a (snd (case api_get (resource_path b i) b of (r, b') \<Rightarrow> k r b'))"
  by (auto simp: api_eqs within_def)

lemma within_post:
  "within ep a b \<Longrightarrow> (\<And>b'. within ep a b' \<Longrightarrow> within ep a (snd (k (answer (api_warn x b) (post_request ep pl)) b')))
     \<Longrightarrow> within ep a (snd (case api_post [Lit (api_path b)] pl (api_warn x b) of (r, b') \<Rightarrow> k r b'))"
  by (auto simp: api_eqs within_def)

lemma within_patch:
  "within ep a b \<Longrightarrow> (\<And>b'. within ep a b' \<Longrightarrow> within ep a (snd (k (answer b (patch_request ep i p)) b')))
     \<Longrightarrow> within ep a (snd (case api_patch (resource_path b i) p b of (r, b') \<Rightarrow> k r b'))"
  by (auto simp: api_eqs within_def)

lemma within_delete:
  "within ep a b \<Longrightarrow> (\<And>b'. within ep a b' \<Longrightarrow> within ep a (snd (k (answer b (delete_request ep i)) b')))
     \<Longrightarrow> within ep a (snd (case api_delete (resource_path b i) b of (r, b') \<Rightarrow> k r b'))"
  by (auto simp: api_eqs within_def)

lemmas within_intros = within_and_then within_lift within_helper within_list_by_name within_pair
  within_get_list within_get_read within_post within_patch within_delete

lemma cn_absent_within:
  assumes "\<forall>a r s fw. list_all (addresses (api_path a)) (snd (w a r s fw))"
    and "api_path a = ep"
  shows "within ep a (snd (cn_absent_strategy w a wished))"
  unfolding cn_absent_strategy_def
  using assms
  by (auto intro!: within_intros within_refl split: option.splits)

lemma cn_present_within:
  assumes "\<forall>a r s fw. list_all (addresses (api_path a)) (snd (w a r s fw))"
    and "api_path a = ep"
  shows "within ep a (snd (cn_present_strategy w d a wished))"
  unfolding cn_present_strategy_def Let_def
  using assms
  by (auto intro!: within_intros within_refl split: option.splits)

lemma within_fn_list_by_name:
  "within ep a b \<Longrightarrow> list_all (addresses (api_path b)) (snd (f b ''namespaces''))
     \<Longrightarrow> within ep a (snd (fn_list_by_name f b))"
  by (auto simp: snd_fn_list_by_name within_def)

lemma fn_absent_within:
  assumes "\<forall>a r s fw. list_all (addresses (api_path a)) (snd (w a r s fw))"
    and "\<forall>a k. list_all (addresses (api_path a)) (snd (f a k))"
    and "api_path a = ep"
  shows "within ep a (snd (fn_absent_strategy w f a wished))"
  unfolding fn_absent_strategy_def
  using assms
  by (auto intro!: within_intros within_fn_list_by_name within_refl split: option.splits)

lemma fn_present_within:
  assumes "\<forall>a r s fw. list_all (addresses (api_path a)) (snd (w a r s fw))"
    and "\<forall>a k. list_all (addresses (api_path a)) (snd (f a k))"
    and "api_path a = ep"
  shows "within ep a (snd (fn_present_strategy w d f a wished))"
  unfolding fn_present_strategy_def Let_def
  using assms
  by (auto intro!: within_intros within_fn_list_by_name within_refl split: option.splits)

lemma cr_info_within:
  assumes "api_path a = ep"
  shows "within ep a (snd (cr_info_strategy a wished))"
  unfolding cr_info_strategy_def
  using assms
  by (auto intro!: within_intros within_refl split: option.splits)

lemma fn_info_within:
  assumes "api_path a = ep"
  shows "within ep a (snd (fn_info_strategy a wished))"
  unfolding fn_info_strategy_def
  using assms
  by (auto intro!: within_intros within_refl split: option.splits)

lemma within_fresh:
  "within ep ((Scaleway cm srv)\<lparr>api_path := ep\<rparr>) b \<Longrightarrow> \<forall>rq\<in>set (calls b). addresses ep rq"
  by (auto simp: within_def Scaleway_def list_all_iff)

lemma cn_present_after_listing:
  assumes "\<forall>a r s fw. list_all (addresses (api_path a)) (snd (w a r s fw))"
    and "api_path a = ep"
  shows "within ep (after a [list_request ep]) (snd (cn_present_strategy w d a wished))"
proof -
  obtain r where L: "list_by_name ''containers'' ''containers'' a = (r, after a [list_request ep])"
    using list_by_name_eq assms(2) by blast
  show ?thesis
    unfolding cn_present_strategy_def Let_def L
    using assms
    by (auto intro!: within_intros within_refl split: option.splits)
qed

lemma cn_absent_after_listing:
  assumes "\<forall>a r s fw. list_all (addresses (api_path a)) (snd (w a r s fw))"
    and "api_path a = ep"
  shows "within ep (after a [list_request ep]) (snd (cn_absent_strategy w a wished))"
proof -
  obtain r where L: "list_by_name ''containers'' ''containers'' a = (r, after a [list_request ep])"
    using list_by_name_eq assms(2) by blast
  show ?thesis
    unfolding cn_absent_strategy_def L
    using assms
    by (auto intro!: within_intros within_refl split: option.splits)
qed

lemma cr_info_after_listing:
  assumes "api_path a = ep"
  shows "within ep (after a [list_request ep]) (snd (cr_info_strategy a wished))"
proof -
  obtain r where L: "list_by_name ''container registries'' ''namespaces'' a = (r, after a [list_request ep])"
    using list_by_name_eq assms by blast
  show ?thesis
    unfolding cr_info_strategy_def L
    using assms
    by (auto intro!: within_intros within_refl split: option.splits)
qed

lemma fn_info_after_listing:
  assumes "api_path a = ep"
  shows "within ep (after a [list_request ep]) (snd (fn_info_strategy a wished))"
proof -
  obtain r where L: "list_by_name ''function namespaces'' ''namespaces'' a = (r, after a [list_request ep])"
    using list_by_name_eq assms by blast
  show ?thesis
    unfolding fn_info_strategy_def L
    using assms
    by (auto intro!: within_intros within_refl split: option.splits)
qed

lemma fn_present_after_listing:
  assumes "\<forall>a r s fw. list_all (addresses (api_path a)) (snd (w a r s fw))"
    and "api_path a = ep"
  shows "within ep (after a (snd (f a ''namespaces''))) (snd (fn_present_strategy w d f a wished))"
proof -
  obtain r where L: "fn_list_by_name f a = (r, after a (snd (f a ''namespaces'')))"
    using fn_list_by_name_eq by blast
  show ?thesis
    unfolding fn_present_strategy_def Let_def L
    using assms
    by (auto intro!: within_intros within_refl split: option.splits)
qed

lemma fn_absent_after_listing:
  assumes "\<forall>a r s fw. list_all (addresses (api_path a)) (snd (w a r s fw))"
    and "api_path a = ep"
  shows "within ep (after a (snd (f a ''namespaces''))) (snd (fn_absent_strategy w f a wished))"
proof -
  obtain r where L: "fn_list_by_name f a = (r, after a (snd (f a ''namespaces'')))"
    using fn_list_by_name_eq by blast
  show ?thesis
    unfolding fn_absent_strategy_def L
    using assms
    by (auto intro!: within_intros within_refl split: option.splits)
qed

lemma within_after_helper:
  "within ep (after ((Scaleway cm srv)\<lparr>api_path := ep\<rparr>) rqs) b \<Longrightarrow> \<exists>rest. calls b = rqs @ rest"
  by (auto simp: within_def Scaleway_def)

lemma within_first:
  "within ep (after ((Scaleway cm srv)\<lparr>api_path := ep\<rparr>) [rq]) b \<Longrightarrow> \<exists>rest. calls b = rq # rest"
  by (auto simp: within_def Scaleway_def)

lemma poll_requests: "set (snd (poll n a rq st sent)) \<subseteq> insert rq (set sent)"
proof (induction n arbitrary: sent)
  case 0
  show ?case by auto
next
  case (Suc n)
  have "set (snd (poll n a rq st (sent @ [rq]))) \<subseteq> insert rq (set sent)"
    using Suc [of "sent @ [rq]"] by auto
  then show ?case
    by (auto simp: Let_def split: sum.splits if_splits)
qed

lemma wait_addresses:
  "\<forall>a r s fw. \<forall>rq\<in>set (snd (wait_to_complete_state_transition n a r s fw)). addresses (api_path a) rq"
proof (intro allI ballI)
  fix a r s fw rq
  assume h: "rq \<in> set (snd (wait_to_complete_state_transition n a r s fw))"
  show "addresses (api_path a) rq"
  proof (cases "getitem r ''id''")
    case (Inl e)
    with h show ?thesis by (simp add: wait_to_complete_state_transition_def)
  next
    case (Inr i)
    with h have "rq = \<lparr>meth = GET, path = resource_path a i, data = None\<rparr>"
      using poll_requests [of n a "\<lparr>meth = GET, path = resource_path a i, data = None\<rparr>" s "[]"]
      by (auto simp: wait_to_complete_state_transition_def)
    then show ?thesis by (simp add: addresses_def resource_path_def)
  qed
qed

lemma fetch_addresses:
  "\<forall>a k. \<forall>rq\<in>set (snd (fetch_all_resources a k)). addresses (api_path a) rq"
  by (auto simp: fetch_all_resources_def Let_def addresses_def split: sum.splits)

lemma map_of_setitem:
  "map_of (setitem kvs k v) k' = (if k' = k then Some v else map_of kvs k')"
  by (induction kvs) auto

lemma map_of_fold_setitem:
  "map_of (fold (\<lambda>attr kvs. setitem kvs attr v) attrs kvs) k
     = (if k \<in> set attrs then Some v else map_of kvs k)"
  by (induction attrs arbitrary: kvs) (auto simp: map_of_setitem)

lemma filter_str_keeps:
  assumes "length k \<noteq> 1"
  shows "\<exists>kvs'. filter_sensitive_attributes (JDict kvs) (PyStr s) = Ok (JDict kvs')
           \<and> map_of kvs' k = map_of kvs k"
proof -
  have "k \<notin> set (map (\<lambda>c. [c]) s)"
    using assms by auto
  then show ?thesis
    by (simp add: filter_sensitive_attributes_def map_of_fold_setitem)
qed

lemma filter_tuple_redacts:
  assumes "k \<in> set names"
  shows "\<exists>kvs'. filter_sensitive_attributes (JDict kvs) (PyTuple names) = Ok (JDict kvs')
           \<and> map_of kvs' k = Some SENSITIVE_VALUE"
  using assms by (simp add: filter_sensitive_attributes_def map_of_fold_setitem)

lemma sample_cn_listing:
  "fst (list_by_name what ''containers'' ((Scaleway cm (scripted (listing rs # rest)))\<lparr>api_path := ep\<rparr>))
     = (case name_dict Map.empty rs of Inl e \<Rightarrow> Raise e | Inr lk \<Rightarrow> Ok lk)"
  by (simp add: list_by_name_def api_eqs answer_def scripted_def listing_def reply_def ok_def
      Scaleway_def split: sum.splits)

lemma function_namespace_filter_redacts:
  "\<exists>kvs'. filter_sensitive_attributes (JDict kvs) fn_SENSITIVE_ATTRIBUTES = Ok (JDict kvs')
          \<and> getitem (JDict kvs') ''secret_environment_variables'' = Inr SENSITIVE_VALUE"
  using filter_tuple_redacts [of "''secret_environment_variables''" "[''secret_environment_variables'']" kvs]
  by (auto simp: fn_SENSITIVE_ATTRIBUTES_def)

lemma cn_core_present:
  "cnp_state module = Present \<Longrightarrow>
   cn_core w d flt srv module =
     finish flt ''container'' cn_SENSITIVE_ATTRIBUTES
       (cn_present_strategy w d
          ((Scaleway (cnp_check_mode module) srv)
             \<lparr>api_path := ''containers/v1beta1/regions/'' @ cnp_region module @ ''/containers''\<rparr>)
          \<lparr>cn_state = cnp_state module,
           cn_namespace_id = cnp_namespace_id module,
           cn_name = cnp_name module,
           cn_description = cnp_description module,
           cn_min_scale = cnp_min_scale module,
           cn_max_scale = cnp_max_scale module,
           cn_environment_variables = cnp_environment_variables module,
           cn_secret_environment_variables = cnp_secret_environment_variables module,
           cn_memory_limit = cnp_memory_limit module,
           cn_timeout = cnp_container_timeout module,
           cn_privacy = cnp_privacy module,
           cn_registry_image = cnp_registry_image module,
           cn_max_concurrency = cnp_max_concurrency module,
           cn_protocol = cnp_protocol module,
           cn_port = cnp_port module,
           cn_redeploy = cnp_redeploy module\<rparr>)"
  by (simp add: cn_core_def Let_def cn_state_strategy_def)

lemma cn_core_listed:
  assumes "cnp_state module = Present"
    and "fst (list_by_name ''containers'' ''containers''
               ((Scaleway (cnp_check_mode module) srv)
                  \<lparr>api_path := ''containers/v1beta1/regions/'' @ cnp_region module @ ''/containers''\<rparr>))
         = Ok lk"
    and "lk (JStr (cnp_name module)) = Some t"
  shows "cn_core w d flt srv module =
     (Traceback TypeError,
      after ((Scaleway (cnp_check_mode module) srv)
               \<lparr>api_path := ''containers/v1beta1/regions/'' @ cnp_region module @ ''/containers''\<rparr>)
        [list_request (''containers/v1beta1/regions/'' @ cnp_region module @ ''/containers'')])"
  unfolding cn_core_present [OF assms(1)]
  using cn_present_listed [OF assms(2), where t = t and w = w and d = d] assms(3)
  by (simp add: finish_def)

lemma info_core_found:
  assumes "fst (list_by_name ''function namespaces'' ''namespaces''
               ((Scaleway (inp_check_mode module) srv)
                  \<lparr>api_path := ''functions/v1beta1/regions/'' @ inp_region module @ ''/namespaces''\<rparr>))
         = Ok lk"
    and "lk (JStr (inp_name module)) = Some t"
    and "getitem t ''id'' = Inr i"
    and "answer (after ((Scaleway (inp_check_mode module) srv)
                  \<lparr>api_path := ''functions/v1beta1/regions/'' @ inp_region module @ ''/namespaces''\<rparr>)
                  [list_request (''functions/v1beta1/regions/'' @ inp_region module @ ''/namespaces'')])
           (read_request (''functions/v1beta1/regions/'' @ inp_region module @ ''/namespaces'') i) = response"
    and "ok response"
    and "flt (json response) info_SENSITIVE_ATTRIBUTES = Ok shown"
  shows "fst (fn_info_core flt srv module) = Exit_json False ''function_namespace'' shown"
proof -
  let ?a = "(Scaleway (inp_check_mode module) srv)
              \<lparr>api_path := ''functions/v1beta1/regions/'' @ inp_region module @ ''/namespaces''\<rparr>"
  have L: "list_by_name ''function namespaces'' ''namespaces'' ?a = (Ok lk, after ?a [list_request (api_path ?a)])"
    using list_by_name_eq [of "''function namespaces''" "''namespaces''" ?a] assms(1) by simp
  have "fst (fn_info_strategy ?a \<lparr>in_project_id = inp_project_id module, in_name = inp_name module\<rparr>)
      = Ok (json response)"
    unfolding fn_info_strategy_def L using assms(2-5) by (simp add: api_eqs)
  then show ?thesis
    unfolding fn_info_core_def Let_def info_finish_def finish_def
    using assms(6)
    by (cases "fn_info_strategy ?a \<lparr>in_project_id = inp_project_id module, in_name = inp_name module\<rparr>")
       simp
qed


section \<open>The creation payload of the container module\<close>



section \<open>Check mode\<close>

lemma check_mode_strategies:
  assumes "check_mode a"
  shows "snd (cn_present_strategy w d a wcn) = after a [list_request (api_path a)]
       \<and> snd (cn_absent_strategy w a wcn) = after a [list_request (api_path a)]
       \<and> snd (fn_present_strategy w d f a wfn) = after a (snd (f a ''namespaces''))
       \<and> snd (fn_absent_strategy w f a wfn) = after a (snd (f a ''namespaces''))
       \<and> meth (list_request (api_path a)) = GET
       \<and> (\<forall>lk. fst (list_by_name ''containers'' ''containers'' a) = Ok lk \<and> lk (JStr (cn_name wcn)) = None \<longrightarrow>
             fst (cn_present_strategy w d a wcn) = Ok (True, status_summary ''A container would be created.''))
       \<and> (\<forall>lk t. fst (list_by_name ''containers'' ''containers'' a) = Ok lk \<and> lk (JStr (cn_name wcn)) = Some t \<longrightarrow>
             fst (cn_present_strategy w d a wcn) = Raise TypeError)
       \<and> (\<forall>lk t. fst (list_by_name ''containers'' ''containers'' a) = Ok lk \<and> lk (JStr (cn_name wcn)) = Some t \<longrightarrow>
             fst (cn_absent_strategy w a wcn) = Ok (True, status_summary ''Container would be destroyed''))
       \<and> (\<forall>lk. fst (fn_list_by_name f a) = Ok lk \<and> lk (JStr (fn_name wfn)) = None \<longrightarrow>
             fst (fn_present_strategy w d f a wfn) = Ok (True, status_summary ''A function namespace would be created.''))
       \<and> (\<forall>lk t p. fst (fn_list_by_name f a) = Ok lk \<and> lk (JStr (fn_name wfn)) = Some t
               \<and> d t (JDict (payload_from_wished_fn wfn)) fn_VERIFIABLE_MUTABLE_ATTRIBUTES fn_MUTABLE_ATTRIBUTES = Ok p
               \<and> truthy p \<longrightarrow>
             fst (fn_present_strategy w d f a wfn) = Ok (True, status_summary ''Function namespace attributes would be changed.''))
       \<and> (\<forall>lk t. fst (fn_list_by_name f a) = Ok lk \<and> lk (JStr (fn_name wfn)) = Some t \<longrightarrow>
             fst (fn_absent_strategy w f a wfn) = Ok (True, status_summary ''Function namespace would be destroyed''))"
  using assms
  by (intro conjI allI impI)
     (simp_all add: cn_present_check_state cn_absent_check_state fn_present_check_state
        fn_absent_check_state cn_present_check_create cn_present_listed
        cn_absent_check_destroy fn_present_check_create fn_present_check_update
        fn_absent_check_destroy list_request_def)

text \<open>
  C3. The claim is that in check mode a strategy returns changed true with a status message
  whenever a change is required, before any POST, PATCH or DELETE. No strategy issues
  anything beyond the listing in check mode, and the would-be creations, the would-be
  destructions and the function namespace's would-be update return as claimed (lemma
  \<open>check_mode_strategies\<close>). The container module's would-be update does not: its call of the
  comparison helper with \<open>target_cn=\<close> and \<open>wished_cn=\<close> raises \<open>TypeError\<close>, so a
  check-mode run on a listed container whose description differs ends in a traceback and
  never reaches the return of changed true with \<open>Container attributes would be changed.\<close>
\<close>

theorem container_check_mode_update_raises:
  "cn_core (wait_to_complete_state_transition 1) resource_attributes_should_be_changed
     filter_sensitive_attributes (scripted [listing [stale_container]])
     (sample_cn_module\<lparr>cnp_check_mode := True\<rparr>)
   = (Traceback TypeError,
      after ((Scaleway True (scripted [listing [stale_container]]))
               \<lparr>api_path := ''containers/v1beta1/regions/fr-par/containers''\<rparr>)
        [list_request ''containers/v1beta1/regions/fr-par/containers''])"
proof -
  let ?m = "sample_cn_module\<lparr>cnp_check_mode := True\<rparr>"
  have s: "cnp_state ?m = Present" and c: "cnp_check_mode ?m = True"
    and r: "cnp_region ?m = ''fr-par''" and n: "cnp_name ?m = ''web''"
    by (simp_all add: sample_cn_module_def)
  have l: "fst (list_by_name ''containers'' ''containers''
               ((Scaleway (cnp_check_mode ?m) (scripted [listing [stale_container]]))
                  \<lparr>api_path := ''containers/v1beta1/regions/'' @ cnp_region ?m @ ''/containers''\<rparr>))
         = Ok [JStr ''web'' \<mapsto> stale_container]"
    by (simp add: sample_cn_listing stale_container_def)
  have t: "[JStr ''web'' \<mapsto> stale_container] (JStr (cnp_name ?m)) = Some stale_container"
    by (simp add: n)
  show ?thesis
    using cn_core_listed [OF s l t, where w = "wait_to_complete_state_transition 1"
        and d = resource_attributes_should_be_changed and flt = filter_sensitive_attributes]
    by (simp add: c r)
qed

section \<open>Converged runs\<close>

lemma converged_strategies:
  "(\<forall>lk t. fst (list_by_name ''containers'' ''containers'' a) = Ok lk \<and> lk (JStr (cn_name wcn)) = Some t \<longrightarrow>
      cn_present_strategy w d a wcn = (Raise TypeError, after a [list_request (api_path a)]))
   \<and> (\<forall>lk. fst (list_by_name ''containers'' ''containers'' a) = Ok lk \<and> lk (JStr (cn_name wcn)) = None \<longrightarrow>
      cn_absent_strategy w a wcn = (Ok (False, JDict []), after a [list_request (api_path a)]))
   \<and> (\<forall>lk t p. fst (fn_list_by_name f a) = Ok lk \<and> lk (JStr (fn_name wfn)) = Some t
        \<and> d t (JDict (payload_from_wished_fn wfn)) fn_VERIFIABLE_MUTABLE_ATTRIBUTES fn_MUTABLE_ATTRIBUTES = Ok p
        \<and> \<not> truthy p \<longrightarrow>
      fn_present_strategy w d f a wfn = (Ok (False, t), after a (snd (f a ''namespaces''))))
   \<and> (\<forall>lk. fst (fn_list_by_name f a) = Ok lk \<and> lk (JStr (fn_name wfn)) = None \<longrightarrow>
      fn_absent_strategy w f a wfn = (Ok (False, JDict []), after a (snd (f a ''namespaces''))))
   \<and> meth (list_request (api_path a)) = GET
   \<and> (\<forall>summary shown. flt summary sensitive = Ok shown \<longrightarrow>
        finish flt key sensitive (Ok (False, summary), a') = (Exit_json False key shown, a'))"
  by (intro conjI allI impI)
     (simp_all add: cn_present_listed cn_absent_converged fn_present_converged
        fn_absent_converged list_request_def finish_def)

text \<open>
  C4. The claim is that a run whose observed state already is the wished one issues no
  create, update or delete and returns changed false. That holds for \<open>absent\<close> in both
  modules and for \<open>present\<close> in the function-namespace module (lemma
  \<open>converged_strategies\<close>). For \<open>present\<close> in the container module it does not: once the
  wished name is listed, the call of the comparison helper with \<open>target_cn=\<close> and
  \<open>wished_cn=\<close> raises \<open>TypeError\<close>, so the run on a container that matches the wished
  one in every attribute ends in a traceback after the listing and returns no changed
  flag at all.
\<close>

theorem container_converged_run_raises:
  "cn_core (wait_to_complete_state_transition 1) resource_attributes_should_be_changed
     filter_sensitive_attributes (scripted [listing [sample_container]]) sample_cn_module
   = (Traceback TypeError,
      after ((Scaleway False (scripted [listing [sample_container]]))
               \<lparr>api_path := ''containers/v1beta1/regions/fr-par/containers''\<rparr>)
        [list_request ''containers/v1beta1/regions/fr-par/containers''])"
proof -
  have s: "cnp_state sample_cn_module = Present" and c: "cnp_check_mode sample_cn_module = False"
    and r: "cnp_region sample_cn_module = ''fr-par''" and n: "cnp_name sample_cn_module = ''web''"
    by (simp_all add: sample_cn_module_def)
  have l: "fst (list_by_name ''containers'' ''containers''
               ((Scaleway (cnp_check_mode sample_cn_module) (scripted [listing [sample_container]]))
                  \<lparr>api_path := ''containers/v1beta1/regions/'' @ cnp_region sample_cn_module @ ''/containers''\<rparr>))
         = Ok [JStr ''web'' \<mapsto> sample_container]"
    by (simp add: sample_cn_listing sample_container_def)
  have t: "[JStr ''web'' \<mapsto> sample_container] (JStr (cnp_name sample_cn_module)) = Some sample_container"
    by (simp add: n)
  show ?thesis
    using cn_core_listed [OF s l t, where w = "wait_to_complete_state_transition 1"
        and d = resource_attributes_should_be_changed and flt = filter_sensitive_attributes]
    by (simp add: c r)
qed

section \<open>Lookup misses of the info modules\<close>

text \<open>
  C5. When the listing of an info module succeeds and holds no resource of the requested
  name, the module ends in \<open>fail_json\<close> right after the listing, with a message that
  names the resource and the project, and exits with no data.
\<close>

theorem info_lookup_miss_is_fatal:
  "(\<forall>lk. a = (Scaleway (inp_check_mode m) srv)\<lparr>api_path := ''registry/v1/regions/'' @ inp_region m @ ''/namespaces''\<rparr>
        \<and> fst (list_by_name ''container registries'' ''namespaces'' a) = Ok lk
        \<and> lk (JStr (inp_name m)) = None \<longrightarrow>
      cr_info_core flt srv m =
        (Exit_fail [Lit (''Error during container registries lookup: Unable to find container registry named ''
                         @ apostrophe @ inp_name m @ apostrophe @ '' in project ''
                         @ apostrophe @ inp_project_id m @ apostrophe)],
         after a [list_request (api_path a)]))
   \<and> (\<forall>lk. b = (Scaleway (inp_check_mode m) srv)\<lparr>api_path := ''functions/v1beta1/regions/'' @ inp_region m @ ''/namespaces''\<rparr>
        \<and> fst (list_by_name ''function namespaces'' ''namespaces'' b) = Ok lk
        \<and> lk (JStr (inp_name m)) = None \<longrightarrow>
      fn_info_core flt srv m =
        (Exit_fail [Lit (''Error during function namespace lookup: Unable to find function namespace named ''
                         @ apostrophe @ inp_name m @ apostrophe @ '' in project ''
                         @ apostrophe @ inp_project_id m @ apostrophe)],
         after b [list_request (api_path b)]))"
proof (intro conjI allI impI)
  fix lk
  assume "a = (Scaleway (inp_check_mode m) srv)\<lparr>api_path := ''registry/v1/regions/'' @ inp_region m @ ''/namespaces''\<rparr>
        \<and> fst (list_by_name ''container registries'' ''namespaces'' a) = Ok lk
        \<and> lk (JStr (inp_name m)) = None"
  then show "cr_info_core flt srv m =
        (Exit_fail [Lit (''Error during container registries lookup: Unable to find container registry named ''
                         @ apostrophe @ inp_name m @ apostrophe @ '' in project ''
                         @ apostrophe @ inp_project_id m @ apostrophe)],
         after a [list_request (api_path a)])"
    using cr_info_miss [of a lk "\<lparr>in_project_id = inp_project_id m, in_name = inp_name m\<rparr>"]
    by (auto simp add: cr_info_core_def Let_def)
next
  fix lk
  assume "b = (Scaleway (inp_check_mode m) srv)\<lparr>api_path := ''functions/v1beta1/regions/'' @ inp_region m @ ''/namespaces''\<rparr>
        \<and> fst (list_by_name ''function namespaces'' ''namespaces'' b) = Ok lk
        \<and> lk (JStr (inp_name m)) = None"
  then show "fn_info_core flt srv m =
        (Exit_fail [Lit (''Error during function namespace lookup: Unable to find function namespace named ''
                         @ apostrophe @ inp_name m @ apostrophe @ '' in project ''
                         @ apostrophe @ inp_project_id m @ apostrophe)],
         after b [list_request (api_path b)])"
    using fn_info_miss [of b lk "\<lparr>in_project_id = inp_project_id m, in_name = inp_name m\<rparr>"]
    by (auto simp add: fn_info_core_def Let_def)
qed

theorem info_lookup_miss_is_fatal_witness:
  "fst (cr_info_core filter_sensitive_attributes (scripted [listing []]) sample_info_module)
     = Exit_fail [Lit (''Error during container registries lookup: Unable to find container registry named ''
                       @ apostrophe @ ''web'' @ apostrophe @ '' in project '' @ apostrophe @ ''p'' @ apostrophe)]
   \<and> calls (snd (cr_info_core filter_sensitive_attributes (scripted [listing []]) sample_info_module))
     = [list_request ''registry/v1/regions/fr-par/namespaces'']
   \<and> fst (fn_info_core filter_sensitive_attributes (scripted [listing []]) sample_info_module)
     = Exit_fail [Lit (''Error during function namespace lookup: Unable to find function namespace named ''
                       @ apostrophe @ ''web'' @ apostrophe @ '' in project '' @ apostrophe @ ''p'' @ apostrophe)]"
proof -
  let ?a = "(Scaleway (inp_check_mode sample_info_module) (scripted [listing []]))
              \<lparr>api_path := ''registry/v1/regions/'' @ inp_region sample_info_module @ ''/namespaces''\<rparr>"
  let ?b = "(Scaleway (inp_check_mode sample_info_module) (scripted [listing []]))
              \<lparr>api_path := ''functions/v1beta1/regions/'' @ inp_region sample_info_module @ ''/namespaces''\<rparr>"
  have ha: "fst (list_by_name ''container registries'' ''namespaces'' ?a) = Ok Map.empty"
    by (simp add: sample_info_listing)
  have hb: "fst (list_by_name ''function namespaces'' ''namespaces'' ?b) = Ok Map.empty"
    by (simp add: sample_info_listing)
  have m: "inp_name sample_info_module = ''web''" "inp_project_id sample_info_module = ''p''"
    "inp_region sample_info_module = ''fr-par''"
    by (simp_all add: sample_info_module_def)
  have p: "api_path ?a = ''registry/v1/regions/fr-par/namespaces''"
    by (simp add: m)
  show ?thesis
    using ha hb
      info_lookup_miss_is_fatal [where a = ?a and b = ?b and m = sample_info_module
        and srv = "scripted [listing []]" and flt = filter_sensitive_attributes]
    by (simp add: m p)
qed

section \<open>The info modules only read\<close>

text \<open>
  C9. Whatever the server answers and whatever the check-mode flag, an info module that
  exits with a result reports changed false, and every request of its run is a GET.
\<close>

theorem info_modules_only_read:
  "(\<forall>c k v. fst (cr_info_core flt srv m) = Exit_json c k v \<longrightarrow> c = False)
   \<and> (\<forall>rq\<in>set (calls (snd (cr_info_core flt srv m))). meth rq = GET)
   \<and> (\<forall>c k v. fst (fn_info_core flt srv m) = Exit_json c k v \<longrightarrow> c = False)
   \<and> (\<forall>rq\<in>set (calls (snd (fn_info_core flt srv m))). meth rq = GET)"
proof (intro conjI allI impI ballI)
  fix c k v assume "fst (cr_info_core flt srv m) = Exit_json c k v"
  then show "c = False"
    unfolding cr_info_core_def Let_def by (rule info_finish_changed)
next
  fix c k v assume "fst (fn_info_core flt srv m) = Exit_json c k v"
  then show "c = False"
    unfolding fn_info_core_def Let_def by (rule info_finish_changed)
next
  fix rq assume "rq \<in> set (calls (snd (cr_info_core flt srv m)))"
  then show "meth rq = GET"
    unfolding cr_info_core_def Let_def
    using cr_info_only_reads
      [of "(Scaleway (inp_check_mode m) srv)\<lparr>api_path := ''registry/v1/regions/'' @ inp_region m @ ''/namespaces''\<rparr>"
          "\<lparr>in_project_id = inp_project_id m, in_name = inp_name m\<rparr>"]
    by auto
next
  fix rq assume "rq \<in> set (calls (snd (fn_info_core flt srv m)))"
  then show "meth rq = GET"
    unfolding fn_info_core_def Let_def
    using fn_info_only_reads
      [of "(Scaleway (inp_check_mode m) srv)\<lparr>api_path := ''functions/v1beta1/regions/'' @ inp_region m @ ''/namespaces''\<rparr>"
          "\<lparr>in_project_id = inp_project_id m, in_name = inp_name m\<rparr>"]
    by auto
qed

theorem info_modules_only_read_witness:
  "(\<exists>k v. fst (cr_info_core filter_sensitive_attributes
                (scripted [listing [sample_container], reply 200 sample_container])
                (sample_info_module\<lparr>inp_check_mode := True\<rparr>)) = Exit_json False k v)
   \<and> map meth (calls (snd (cr_info_core filter_sensitive_attributes
                (scripted [listing [sample_container], reply 200 sample_container])
                (sample_info_module\<lparr>inp_check_mode := True\<rparr>)))) = [GET, GET]"
proof -
  let ?srv = "scripted [listing [sample_container], reply 200 sample_container]"
  let ?m = "sample_info_module\<lparr>inp_check_mode := True\<rparr>"
  let ?a = "(Scaleway True ?srv)\<lparr>api_path := ''registry/v1/regions/fr-par/namespaces''\<rparr>"
  have l: "list_by_name ''container registries'' ''namespaces'' ?a
      = (Ok [JStr ''web'' \<mapsto> sample_container], after ?a [list_request ''registry/v1/regions/fr-par/namespaces''])"
    using list_by_name_eq [of "''container registries''" "''namespaces''" ?a]
      sample_info_listing [where what = "''container registries''" and cm = True
        and rs = "[sample_container]" and rest = "[reply 200 sample_container]"
        and ep = "''registry/v1/regions/fr-par/namespaces''"]
    by (simp add: sample_container_def)
  have s: "cr_info_strategy ?a \<lparr>in_project_id = ''p'', in_name = ''web''\<rparr>
      = (Ok sample_container, after ?a [list_request ''registry/v1/regions/fr-par/namespaces'',
           read_request ''registry/v1/regions/fr-par/namespaces'' (JStr ''c1'')])"
    unfolding cr_info_strategy_def l
    by (simp add: api_eqs answer_def scripted_def reply_def ok_def Scaleway_def
        sample_container_def)
  have f: "\<exists>v. filter_sensitive_attributes sample_container info_SENSITIVE_ATTRIBUTES = Ok v"
    by (simp add: filter_sensitive_attributes_def sample_container_def)
  have e: "\<exists>c k v. fst (cr_info_core filter_sensitive_attributes ?srv ?m) = Exit_json c k v"
    unfolding cr_info_core_def Let_def
    using f by (auto simp add: sample_info_module_def s info_finish_def finish_def)
  have c: "\<exists>x y. calls (snd (cr_info_core filter_sensitive_attributes ?srv ?m)) = [x, y]"
    unfolding cr_info_core_def Let_def
    by (simp add: sample_info_module_def s)
  show ?thesis
    using e c info_modules_only_read [of filter_sensitive_attributes ?srv ?m]
    by auto
qed

section \<open>The order of a mutating run\<close>

text \<open>
  C7. Outside check mode the requests of a mutating run come in a fixed order. A successful
  creation, and in the function-namespace module a successful update, is the listing
  (from which the lookup is built), then the POST or PATCH, then the requests of the wait
  helper, then the re-read of the resource; the body of the re-read response is the
  description that the strategy returns, with changed true. A deletion is the listing,
  the requests of the wait helper, then the DELETE. The container module issues no update:
  with the wished name listed its \<open>present\<close> strategy stops after the listing, in the
  \<open>TypeError\<close> of the comparison helper's call. The wait helper is taken to return.
\<close>

theorem list_then_change_then_wait_then_reread:
  "(\<not> check_mode a
      \<and> fst (list_by_name ''containers'' ''containers'' a) = Ok lk
      \<and> lk (JStr (cn_name wcn)) = None
      \<and> pl = JDict (butlast (payload_from_wished_cn wcn))
      \<and> cr = answer (after a [list_request (api_path a)]) (post_request (api_path a) pl)
      \<and> ok cr
      \<and> ac = api_warn pl (after a [list_request (api_path a), post_request (api_path a) pl])
      \<and> w ac (json cr) cn_STABLE_STATES False = (Ok u, polls)
      \<and> getitem (json cr) ''id'' = Inr i \<longrightarrow>
    fst (cn_present_strategy w d a wcn)
      = Ok (True, json (answer (after ac polls) (read_request (api_path a) i)))
    \<and> calls (snd (cn_present_strategy w d a wcn))
      = calls a @ [list_request (api_path a), post_request (api_path a) pl] @ polls
          @ [read_request (api_path a) i])
   \<and> (fst (list_by_name ''containers'' ''containers'' a) = Ok lk
      \<and> lk (JStr (cn_name wcn)) = Some t \<longrightarrow>
    cn_present_strategy w d a wcn = (Raise TypeError, after a [list_request (api_path a)]))
   \<and> (\<not> check_mode a
      \<and> fst (list_by_name ''containers'' ''containers'' a) = Ok lk
      \<and> lk (JStr (cn_name wcn)) = Some t
      \<and> w (after a [list_request (api_path a)]) t cn_STABLE_STATES True = (Ok u, polls)
      \<and> getitem t ''id'' = Inr j \<longrightarrow>
    (\<exists>rest. calls (snd (cn_absent_strategy w a wcn))
       = calls a @ list_request (api_path a) # polls @ delete_request (api_path a) j # rest))
   \<and> (\<not> check_mode a
      \<and> fst (fn_list_by_name f a) = Ok lk
      \<and> lk (JStr (fn_name wfn)) = Some t
      \<and> w (after a (snd (f a ''namespaces''))) t fn_STABLE_STATES True = (Ok u, polls)
      \<and> getitem t ''id'' = Inr j \<longrightarrow>
    (\<exists>rest. calls (snd (fn_absent_strategy w f a wfn))
       = calls a @ snd (f a ''namespaces'') @ polls @ delete_request (api_path a) j # rest))
   \<and> (\<not> check_mode a
      \<and> fst (fn_list_by_name f a) = Ok lk
      \<and> lk (JStr (fn_name wfn)) = None
      \<and> fpl = JDict (payload_from_wished_fn wfn)
      \<and> al = after a (snd (f a ''namespaces''))
      \<and> fcr = answer al (post_request (api_path a) fpl)
      \<and> ok fcr
      \<and> fc = api_warn fpl (after al [post_request (api_path a) fpl])
      \<and> w fc (json fcr) fn_STABLE_STATES False = (Ok u, polls)
      \<and> getitem (json fcr) ''id'' = Inr i \<longrightarrow>
    fst (fn_present_strategy w d f a wfn)
      = Ok (True, json (answer (after fc polls) (read_request (api_path a) i)))
    \<and> calls (snd (fn_present_strategy w d f a wfn))
      = calls a @ snd (f a ''namespaces'') @ [post_request (api_path a) fpl] @ polls
          @ [read_request (api_path a) i])
   \<and> (\<not> check_mode a
      \<and> fst (fn_list_by_name f a) = Ok lk
      \<and> lk (JStr (fn_name wfn)) = Some t
      \<and> d t (JDict (payload_from_wished_fn wfn)) fn_VERIFIABLE_MUTABLE_ATTRIBUTES fn_MUTABLE_ATTRIBUTES = Ok p
      \<and> truthy p
      \<and> getitem t ''id'' = Inr j
      \<and> al = after a (snd (f a ''namespaces''))
      \<and> fpr = answer al (patch_request (api_path a) j p)
      \<and> ok fpr
      \<and> fu = after al [patch_request (api_path a) j p]
      \<and> w fu t fn_STABLE_STATES False = (Ok u, polls) \<longrightarrow>
    fst (fn_present_strategy w d f a wfn)
      = Ok (True, json (answer (after fu polls) (read_request (api_path a) j)))
    \<and> calls (snd (fn_present_strategy w d f a wfn))
      = calls a @ snd (f a ''namespaces'') @ [patch_request (api_path a) j p] @ polls
          @ [read_request (api_path a) j])"
proof (intro conjI impI)
  assume h: "\<not> check_mode a
      \<and> fst (list_by_name ''containers'' ''containers'' a) = Ok lk
      \<and> lk (JStr (cn_name wcn)) = None
      \<and> pl = JDict (butlast (payload_from_wished_cn wcn))
      \<and> cr = answer (after a [list_request (api_path a)]) (post_request (api_path a) pl)
      \<and> ok cr
      \<and> ac = api_warn pl (after a [list_request (api_path a), post_request (api_path a) pl])
      \<and> w ac (json cr) cn_STABLE_STATES False = (Ok u, polls)
      \<and> getitem (json cr) ''id'' = Inr i"
  then have e: "cn_present_strategy w d a wcn =
     (Ok (True, json (answer (after ac polls) (read_request (api_path a) i))),
      after ac (polls @ [read_request (api_path a) i]))"
    using cn_present_created [where lk = lk and pl = pl and cr = cr and u = u] by blast
  show "fst (cn_present_strategy w d a wcn)
      = Ok (True, json (answer (after ac polls) (read_request (api_path a) i)))"
    by (simp add: e)
  show "calls (snd (cn_present_strategy w d a wcn))
      = calls a @ [list_request (api_path a), post_request (api_path a) pl] @ polls
          @ [read_request (api_path a) i]"
    using h by (simp add: e)
next
  assume "fst (list_by_name ''containers'' ''containers'' a) = Ok lk
      \<and> lk (JStr (cn_name wcn)) = Some t"
  then show "cn_present_strategy w d a wcn = (Raise TypeError, after a [list_request (api_path a)])"
    using cn_present_listed [of a lk wcn t w d] by blast
next
  assume "\<not> check_mode a
      \<and> fst (list_by_name ''containers'' ''containers'' a) = Ok lk
      \<and> lk (JStr (cn_name wcn)) = Some t
      \<and> w (after a [list_request (api_path a)]) t cn_STABLE_STATES True = (Ok u, polls)
      \<and> getitem t ''id'' = Inr j"
  then show "\<exists>rest. calls (snd (cn_absent_strategy w a wcn))
       = calls a @ list_request (api_path a) # polls @ delete_request (api_path a) j # rest"
    using cn_absent_delete_calls [of a lk wcn t w u polls j] by blast
next
  assume "\<not> check_mode a
      \<and> fst (fn_list_by_name f a) = Ok lk
      \<and> lk (JStr (fn_name wfn)) = Some t
      \<and> w (after a (snd (f a ''namespaces''))) t fn_STABLE_STATES True = (Ok u, polls)
      \<and> getitem t ''id'' = Inr j"
  then show "\<exists>rest. calls (snd (fn_absent_strategy w f a wfn))
       = calls a @ snd (f a ''namespaces'') @ polls @ delete_request (api_path a) j # rest"
    using fn_absent_delete_calls [of a f lk wfn t w u polls j] by blast
next
  assume h: "\<not> check_mode a
      \<and> fst (fn_list_by_name f a) = Ok lk
      \<and> lk (JStr (fn_name wfn)) = None
      \<and> fpl = JDict (payload_from_wished_fn wfn)
      \<and> al = after a (snd (f a ''namespaces''))
      \<and> fcr = answer al (post_request (api_path a) fpl)
      \<and> ok fcr
      \<and> fc = api_warn fpl (after al [post_request (api_path a) fpl])
      \<and> w fc (json fcr) fn_STABLE_STATES False = (Ok u, polls)
      \<and> getitem (json fcr) ''id'' = Inr i"
  then have e: "fn_present_strategy w d f a wfn =
     (Ok (True, json (answer (after fc polls) (read_request (api_path a) i))),
      after fc (polls @ [read_request (api_path a) i]))"
    using fn_present_created [where lk = lk and pl = fpl and cr = fcr and u = u and al = al] by blast
  show "fst (fn_present_strategy w d f a wfn)
      = Ok (True, json (answer (after fc polls) (read_request (api_path a) i)))"
    by (simp add: e)
  show "calls (snd (fn_present_strategy w d f a wfn))
      = calls a @ snd (f a ''namespaces'') @ [post_request (api_path a) fpl] @ polls
          @ [read_request (api_path a) i]"
    using h by (simp add: e)
next
  assume h: "\<not> check_mode a
      \<and> fst (fn_list_by_name f a) = Ok lk
      \<and> lk (JStr (fn_name wfn)) = Some t
      \<and> d t (JDict (payload_from_wished_fn wfn)) fn_VERIFIABLE_MUTABLE_ATTRIBUTES fn_MUTABLE_ATTRIBUTES = Ok p
      \<and> truthy p
      \<and> getitem t ''id'' = Inr j
      \<and> al = after a (snd (f a ''namespaces''))
      \<and> fpr = answer al (patch_request (api_path a) j p)
      \<and> ok fpr
      \<and> fu = after al [patch_request (api_path a) j p]
      \<and> w fu t fn_STABLE_STATES False = (Ok u, polls)"
  then have e: "fn_present_strategy w d f a wfn =
     (Ok (True, json (answer (after fu polls) (read_request (api_path a) j))),
      after fu (polls @ [read_request (api_path a) j]))"
    using fn_present_updated [where lk = lk and t = t and p = p and pr = fpr and u = u and al = al] by blast
  show "fst (fn_present_strategy w d f a wfn)
      = Ok (True, json (answer (after fu polls) (read_request (api_path a) j)))"
    by (simp add: e)
  show "calls (snd (fn_present_strategy w d f a wfn))
      = calls a @ snd (f a ''namespaces'') @ [patch_request (api_path a) j p] @ polls
          @ [read_request (api_path a) j]"
    using h by (simp add: e)
qed

theorem list_then_change_then_wait_then_reread_witness:
  "fst (cn_present_strategy (wait_to_complete_state_transition 1) resource_attributes_should_be_changed
          (sample_api False creation_script) sample_wished_cn) = Ok (True, sample_container)
   \<and> calls (snd (cn_present_strategy (wait_to_complete_state_transition 1)
                   resource_attributes_should_be_changed
                   (sample_api False creation_script) sample_wished_cn))
     = [list_request ''ep'',
        post_request ''ep'' (JDict (butlast (payload_from_wished_cn sample_wished_cn))),
        read_request ''ep'' (JStr ''c1''), read_request ''ep'' (JStr ''c1'')]"
proof -
  let ?a = "sample_api False creation_script"
  let ?pl = "JDict (butlast (payload_from_wished_cn sample_wished_cn))"
  let ?cr = "reply 200 (resource ''c1'' ''web'' ''pending'')"
  let ?ac = "api_warn ?pl (after ?a [list_request (api_path ?a), post_request (api_path ?a) ?pl])"
  have h1: "\<not> check_mode ?a"
    by simp
  have h2: "fst (list_by_name ''containers'' ''containers'' ?a) = Ok Map.empty"
    by (simp add: creation_script_def sample_listing_none)
  have h3: "Map.empty (JStr (cn_name sample_wished_cn)) = None"
    by simp
  have h4: "?cr = answer (after ?a [list_request (api_path ?a)]) (post_request (api_path ?a) ?pl)"
    by (simp add: answer_sample [where n = 1] creation_script_def)
  have h5: "ok ?cr"
    by (simp add: ok_def reply_def)
  have h6: "wait_to_complete_state_transition 1 ?ac (json ?cr) cn_STABLE_STATES False
      = (Ok (), [read_request ''ep'' (JStr ''c1'')])"
    by (simp add: wait_to_complete_state_transition_def reply_def resource_def resource_path_def
        answer_def scripted_def creation_script_def ok_def cn_STABLE_STATES_def read_request_def)
  have h7: "getitem (json ?cr) ''id'' = Inr (JStr ''c1'')"
    by (simp add: reply_def resource_def)
  have r: "json (answer (after ?ac [read_request ''ep'' (JStr ''c1'')]) (read_request ''ep'' (JStr ''c1'')))
      = sample_container"
    by (simp add: answer_def scripted_def creation_script_def reply_def)
  show ?thesis
    using h1 h2 h3 h4 h5 h6 h7 r
      list_then_change_then_wait_then_reread
        [where a = ?a and lk = Map.empty and wcn = sample_wished_cn and pl = ?pl and cr = ?cr
           and ac = ?ac and w = "wait_to_complete_state_transition 1" and u = "()"
           and polls = "[read_request ''ep'' (JStr ''c1'')]" and i = "JStr ''c1''"
           and d = resource_attributes_should_be_changed, THEN conjunct1]
    by simp
qed

section \<open>Resources that share a name\<close>

text \<open>
  C8. The lookup built from a listing maps a name to the last listed resource of that
  name. Every module builds it this way, and what follows is addressed to the \<open>id\<close> of
  that resource: the read of the info modules, the DELETE of the \<open>absent\<close> strategies and
  the PATCH of the function-namespace module. (The container module never comes to its
  PATCH: see the section on the order of a mutating run.)
\<close>

theorem lookup_keeps_the_last_of_a_name:
  assumes "name_dict Map.empty xs = Inr lk"
    and "filter (named n) xs \<noteq> []"
    and "t = last (filter (named n) xs)"
    and "getitem t ''id'' = Inr i"
  shows "lk (JStr n) = Some t
   \<and> (ok (answer a (list_request (api_path a)))
        \<and> getitem (json (answer a (list_request (api_path a)))) key = Inr l
        \<and> py_iter l = Inr xs \<longrightarrow>
      fst (list_by_name what key a) = Ok lk)
   \<and> (fst (f a ''namespaces'') = Ok l \<and> py_iter l = Inr xs \<longrightarrow> fst (fn_list_by_name f a) = Ok lk)
   \<and> (fst (list_by_name ''container registries'' ''namespaces'' a) = Ok lk \<and> in_name wi = n \<longrightarrow>
      calls (snd (cr_info_strategy a wi))
        = calls a @ [list_request (api_path a), read_request (api_path a) i])
   \<and> (fst (list_by_name ''function namespaces'' ''namespaces'' a) = Ok lk \<and> in_name wi = n \<longrightarrow>
      calls (snd (fn_info_strategy a wi))
        = calls a @ [list_request (api_path a), read_request (api_path a) i])
   \<and> (\<not> check_mode a \<and> fst (list_by_name ''containers'' ''containers'' a) = Ok lk \<and> cn_name wcn = n
        \<and> w (after a [list_request (api_path a)]) t cn_STABLE_STATES True = (Ok u, polls) \<longrightarrow>
      (\<exists>rest. calls (snd (cn_absent_strategy w a wcn))
         = calls a @ list_request (api_path a) # polls @ delete_request (api_path a) i # rest))
   \<and> (\<not> check_mode a \<and> fst (fn_list_by_name f a) = Ok lk \<and> fn_name wfn = n
        \<and> w (after a (snd (f a ''namespaces''))) t fn_STABLE_STATES True = (Ok u, polls) \<longrightarrow>
      (\<exists>rest. calls (snd (fn_absent_strategy w f a wfn))
         = calls a @ snd (f a ''namespaces'') @ polls @ delete_request (api_path a) i # rest))
   \<and> (\<not> check_mode a \<and> fst (fn_list_by_name f a) = Ok lk \<and> fn_name wfn = n
        \<and> d t (JDict (payload_from_wished_fn wfn)) fn_VERIFIABLE_MUTABLE_ATTRIBUTES fn_MUTABLE_ATTRIBUTES = Ok p
        \<and> truthy p \<longrightarrow>
      (\<exists>rest. calls (snd (fn_present_strategy w d f a wfn))
         = calls a @ snd (f a ''namespaces'') @ patch_request (api_path a) i p # rest))"
proof -
  have t: "lk (JStr n) = Some t"
    using name_dict_last [OF assms(1), of n] assms(2,3) by (simp split: list.splits)
  show ?thesis
  proof (intro conjI impI)
    show "lk (JStr n) = Some t" by (rule t)
  next
    assume "ok (answer a (list_request (api_path a)))
        \<and> getitem (json (answer a (list_request (api_path a)))) key = Inr l
        \<and> py_iter l = Inr xs"
    then show "fst (list_by_name what key a) = Ok lk"
      using list_by_name_built [of a key l xs lk what] assms(1) by blast
  next
    assume "fst (f a ''namespaces'') = Ok l \<and> py_iter l = Inr xs"
    then show "fst (fn_list_by_name f a) = Ok lk"
      using fn_list_by_name_built [of f a l xs lk] assms(1) by blast
  next
    assume "fst (list_by_name ''container registries'' ''namespaces'' a) = Ok lk \<and> in_name wi = n"
    then show "calls (snd (cr_info_strategy a wi))
        = calls a @ [list_request (api_path a), read_request (api_path a) i]"
      using cr_info_read [of a lk wi t i] t assms(4) by auto
  next
    assume "fst (list_by_name ''function namespaces'' ''namespaces'' a) = Ok lk \<and> in_name wi = n"
    then show "calls (snd (fn_info_strategy a wi))
        = calls a @ [list_request (api_path a), read_request (api_path a) i]"
      using fn_info_read [of a lk wi t i] t assms(4) by auto
  next
    assume "\<not> check_mode a \<and> fst (list_by_name ''containers'' ''containers'' a) = Ok lk \<and> cn_name wcn = n
        \<and> w (after a [list_request (api_path a)]) t cn_STABLE_STATES True = (Ok u, polls)"
    then show "\<exists>rest. calls (snd (cn_absent_strategy w a wcn))
         = calls a @ list_request (api_path a) # polls @ delete_request (api_path a) i # rest"
      using cn_absent_delete_calls [of a lk wcn t w u polls i] t assms(4) by auto
  next
    assume "\<not> check_mode a \<and> fst (fn_list_by_name f a) = Ok lk \<and> fn_name wfn = n
        \<and> w (after a (snd (f a ''namespaces''))) t fn_STABLE_STATES True = (Ok u, polls)"
    then show "\<exists>rest. calls (snd (fn_absent_strategy w f a wfn))
         = calls a @ snd (f a ''namespaces'') @ polls @ delete_request (api_path a) i # rest"
      using fn_absent_delete_calls [of a f lk wfn t w u polls i] t assms(4) by auto
  next
    assume "\<not> check_mode a \<and> fst (fn_list_by_name f a) = Ok lk \<and> fn_name wfn = n
        \<and> d t (JDict (payload_from_wished_fn wfn)) fn_VERIFIABLE_MUTABLE_ATTRIBUTES fn_MUTABLE_ATTRIBUTES = Ok p
        \<and> truthy p"
    then show "\<exists>rest. calls (snd (fn_present_strategy w d f a wfn))
         = calls a @ snd (f a ''namespaces'') @ patch_request (api_path a) i p # rest"
      using fn_present_patch_calls [of a f lk wfn t d p i w] t assms(4) by auto
  qed
qed

theorem lookup_keeps_the_last_of_a_name_witness:
  "name_dict Map.empty twins = Inr [JStr ''web'' \<mapsto> resource ''c1'' ''web'' ''ready'']
   \<and> filter (named ''web'') twins = twins
   \<and> [JStr ''web'' \<mapsto> resource ''c1'' ''web'' ''ready''] (JStr ''web'') = Some (last twins)
   \<and> calls (snd (cr_info_strategy (sample_api False [listing twins, reply 200 sample_container])
                   \<lparr>in_project_id = ''p'', in_name = ''web''\<rparr>))
     = [list_request ''ep'', read_request ''ep'' (JStr ''c1'')]"
proof -
  let ?lk = "[JStr ''web'' \<mapsto> resource ''c1'' ''web'' ''ready'']"
  let ?a = "sample_api False [listing twins, reply 200 sample_container]"
  have h1: "name_dict Map.empty twins = Inr ?lk"
    by (simp add: twins_def resource_def)
  have f: "filter (named ''web'') twins = twins"
    by (simp add: twins_def resource_def named_def)
  have h2: "filter (named ''web'') twins \<noteq> []"
    by (simp add: f) (simp add: twins_def)
  have h3: "resource ''c1'' ''web'' ''ready'' = last (filter (named ''web'') twins)"
    by (simp add: f) (simp add: twins_def)
  have h4: "getitem (resource ''c1'' ''web'' ''ready'') ''id'' = Inr (JStr ''c1'')"
    by (simp add: resource_def)
  have l: "fst (list_by_name ''container registries'' ''namespaces'' ?a) = Ok ?lk"
    using sample_info_listing [where what = "''container registries''" and cm = False
        and rs = twins and rest = "[reply 200 sample_container]" and ep = "''ep''"] h1
    by (simp add: sample_api_def)
  show ?thesis
    using h1 f h3 l
      lookup_keeps_the_last_of_a_name [OF h1 h2 h3 h4, where a = ?a
        and wi = "\<lparr>in_project_id = ''p'', in_name = ''web''\<rparr>"]
    by simp
qed

section \<open>Endpoints\<close>

text \<open>
  C6. Every request of a run addresses the module's versioned regional endpoint, with the
  configured region in it: \<open>containers/v1beta1/regions/{region}/containers\<close> for the
  container module, \<open>functions/v1beta1/regions/{region}/namespaces\<close> for the two
  function-namespace modules and \<open>registry/v1/regions/{region}/namespaces\<close> for the
  container-registry info module; the modules that list by themselves open the run with
  the GET of that endpoint, and the function-namespace module opens it with the requests
  that its listing helper makes for a client of that endpoint. The wait and listing helpers are taken to address the
  endpoint of the API object they are given.
\<close>

theorem modules_address_their_regional_endpoint:
  assumes "\<forall>a r s fw. \<forall>rq\<in>set (snd (w a r s fw)). addresses (api_path a) rq"
    and "\<forall>a k. \<forall>rq\<in>set (snd (f a k)). addresses (api_path a) rq"
  shows "(\<forall>rq\<in>set (calls (snd (cn_core w d flt srv cm))).
            addresses (''containers/v1beta1/regions/'' @ cnp_region cm @ ''/containers'') rq)
   \<and> (\<forall>rq\<in>set (calls (snd (fn_core w d f flt srv fm))).
            addresses (''functions/v1beta1/regions/'' @ fnp_region fm @ ''/namespaces'') rq)
   \<and> (\<forall>rq\<in>set (calls (snd (cr_info_core flt srv im))).
            addresses (''registry/v1/regions/'' @ inp_region im @ ''/namespaces'') rq)
   \<and> (\<forall>rq\<in>set (calls (snd (fn_info_core flt srv im))).
            addresses (''functions/v1beta1/regions/'' @ inp_region im @ ''/namespaces'') rq)
   \<and> (\<exists>rest. calls (snd (cn_core w d flt srv cm))
          = list_request (''containers/v1beta1/regions/'' @ cnp_region cm @ ''/containers'') # rest)
   \<and> (\<exists>rest. calls (snd (fn_core w d f flt srv fm))
          = snd (f ((Scaleway (fnp_check_mode fm) srv)
                      \<lparr>api_path := ''functions/v1beta1/regions/'' @ fnp_region fm @ ''/namespaces''\<rparr>)
                   ''namespaces'') @ rest)
   \<and> (\<exists>rest. calls (snd (cr_info_core flt srv im))
          = list_request (''registry/v1/regions/'' @ inp_region im @ ''/namespaces'') # rest)
   \<and> (\<exists>rest. calls (snd (fn_info_core flt srv im))
          = list_request (''functions/v1beta1/regions/'' @ inp_region im @ ''/namespaces'') # rest)"
proof -
  have W: "\<forall>a r s fw. list_all (addresses (api_path a)) (snd (w a r s fw))"
    using assms(1) by (simp add: list_all_iff)
  have F: "\<forall>a k. list_all (addresses (api_path a)) (snd (f a k))"
    using assms(2) by (simp add: list_all_iff)
  let ?cn = "''containers/v1beta1/regions/'' @ cnp_region cm @ ''/containers''"
  let ?fn = "''functions/v1beta1/regions/'' @ fnp_region fm @ ''/namespaces''"
  let ?cr = "''registry/v1/regions/'' @ inp_region im @ ''/namespaces''"
  let ?fi = "''functions/v1beta1/regions/'' @ inp_region im @ ''/namespaces''"
  have p: "api_path ((Scaleway c srv)\<lparr>api_path := e\<rparr>) = e" for c e
    by simp
  have cn1: "within ?cn ((Scaleway (cnp_check_mode cm) srv)\<lparr>api_path := ?cn\<rparr>)
               (snd (cn_core w d flt srv cm))"
    unfolding cn_core_def Let_def cn_state_strategy_def
    by (cases "cnp_state cm") (simp_all add: cn_present_within [OF W p] cn_absent_within [OF W p])
  have cn2: "within ?cn (after ((Scaleway (cnp_check_mode cm) srv)\<lparr>api_path := ?cn\<rparr>) [list_request ?cn])
               (snd (cn_core w d flt srv cm))"
    unfolding cn_core_def Let_def cn_state_strategy_def
    by (cases "cnp_state cm")
       (simp_all add: cn_present_after_listing [OF W p] cn_absent_after_listing [OF W p])
  have fn1: "within ?fn ((Scaleway (fnp_check_mode fm) srv)\<lparr>api_path := ?fn\<rparr>)
               (snd (fn_core w d f flt srv fm))"
    unfolding fn_core_def Let_def fn_state_strategy_def
    by (cases "fnp_state fm") (simp_all add: fn_present_within [OF W F p] fn_absent_within [OF W F p])
  have fn2: "within ?fn (after ((Scaleway (fnp_check_mode fm) srv)\<lparr>api_path := ?fn\<rparr>)
                          (snd (f ((Scaleway (fnp_check_mode fm) srv)\<lparr>api_path := ?fn\<rparr>) ''namespaces'')))
               (snd (fn_core w d f flt srv fm))"
    unfolding fn_core_def Let_def fn_state_strategy_def
    by (cases "fnp_state fm")
       (simp_all add: fn_present_after_listing [OF W p] fn_absent_after_listing [OF W p])
  have cr2: "within ?cr (after ((Scaleway (inp_check_mode im) srv)\<lparr>api_path := ?cr\<rparr>) [list_request ?cr])
               (snd (cr_info_core flt srv im))"
    unfolding cr_info_core_def Let_def by (simp add: cr_info_after_listing [OF p])
  have cr1: "within ?cr ((Scaleway (inp_check_mode im) srv)\<lparr>api_path := ?cr\<rparr>)
               (snd (cr_info_core flt srv im))"
    unfolding cr_info_core_def Let_def by (simp add: cr_info_within [OF p])
  have fi2: "within ?fi (after ((Scaleway (inp_check_mode im) srv)\<lparr>api_path := ?fi\<rparr>) [list_request ?fi])
               (snd (fn_info_core flt srv im))"
    unfolding fn_info_core_def Let_def by (simp add: fn_info_after_listing [OF p])
  have fi1: "within ?fi ((Scaleway (inp_check_mode im) srv)\<lparr>api_path := ?fi\<rparr>)
               (snd (fn_info_core flt srv im))"
    unfolding fn_info_core_def Let_def by (simp add: fn_info_within [OF p])
  show ?thesis
    using within_fresh [OF cn1] within_fresh [OF fn1] within_fresh [OF cr1] within_fresh [OF fi1]
      within_first [OF cn2] within_first [OF cr2] within_first [OF fi2]
      within_after_helper [OF fn2]
    by blast
qed

theorem modules_address_their_regional_endpoint_witness:
  "map (addresses ''registry/v1/regions/fr-par/namespaces'')
     (calls (snd (cr_info_core filter_sensitive_attributes
                    (scripted [listing [sample_container], reply 200 sample_container])
                    sample_info_module))) = [True, True]
   \<and> hd (calls (snd (cr_info_core filter_sensitive_attributes
                    (scripted [listing [sample_container], reply 200 sample_container])
                    sample_info_module))) = list_request ''registry/v1/regions/fr-par/namespaces''
   \<and> map (addresses ''functions/v1beta1/regions/fr-par/namespaces'')
       (calls (snd (fn_core (wait_to_complete_state_transition 1) resource_attributes_should_be_changed
                      fetch_all_resources filter_sensitive_attributes
                      (scripted [listing [sample_namespace]]) sample_fn_module))) = [True]
   \<and> calls (snd (fn_core (wait_to_complete_state_transition 1) resource_attributes_should_be_changed
                      fetch_all_resources filter_sensitive_attributes
                      (scripted [listing [sample_namespace]]) sample_fn_module))
       = [list_request ''functions/v1beta1/regions/fr-par/namespaces'']"
proof -
  let ?srv = "scripted [listing [sample_container], reply 200 sample_container]"
  let ?a = "(Scaleway False ?srv)\<lparr>api_path := ''registry/v1/regions/fr-par/namespaces''\<rparr>"
  let ?fsrv = "scripted [listing [sample_namespace]]"
  let ?b = "(Scaleway False ?fsrv)\<lparr>api_path := ''functions/v1beta1/regions/fr-par/namespaces''\<rparr>"
  have l: "fst (list_by_name ''container registries'' ''namespaces'' ?a)
      = Ok [JStr ''web'' \<mapsto> sample_container]"
    using sample_info_listing [where what = "''container registries''" and cm = False
        and rs = "[sample_container]" and rest = "[reply 200 sample_container]"
        and ep = "''registry/v1/regions/fr-par/namespaces''"]
    by (simp add: sample_container_def)
  have i: "getitem sample_container ''id'' = Inr (JStr ''c1'')"
    by (simp add: sample_container_def)
  have c: "\<exists>x y. calls (snd (cr_info_core filter_sensitive_attributes ?srv sample_info_module)) = [x, y]"
    unfolding cr_info_core_def Let_def
    using cr_info_read [OF l, where wished = "\<lparr>in_project_id = ''p'', in_name = ''web''\<rparr>", OF _ i]
    by (simp add: sample_info_module_def)
  have r: "inp_region sample_info_module = ''fr-par''"
    by (simp add: sample_info_module_def)
  have fr: "fnp_region sample_fn_module = ''fr-par''" "fnp_check_mode sample_fn_module = False"
    by (simp_all add: sample_fn_module_def)
  have fl: "snd (fetch_all_resources ?b ''namespaces'')
      = [list_request ''functions/v1beta1/regions/fr-par/namespaces'']"
    by (simp add: fetch_all_resources_def Let_def list_request_def split: sum.splits)
  have fc: "\<exists>x. calls (snd (fn_core (wait_to_complete_state_transition 1)
                      resource_attributes_should_be_changed fetch_all_resources
                      filter_sensitive_attributes ?fsrv sample_fn_module)) = [x]"
  proof -
    have fw: "\<lparr>fn_state = Present, fn_project_id = ''p'', fn_name = ''web'', fn_description = ''d'',
        fn_environment_variables = [], fn_secret_environment_variables = [(''K'', JStr ''s3cret'')]\<rparr>
        = sample_wished_fn"
      by (simp add: sample_wished_fn_def)
    have core: "snd (fn_core (wait_to_complete_state_transition 1) resource_attributes_should_be_changed
                    fetch_all_resources filter_sensitive_attributes ?fsrv sample_fn_module)
        = snd (fn_present_strategy (wait_to_complete_state_transition 1)
               resource_attributes_should_be_changed fetch_all_resources ?b sample_wished_fn)"
      by (simp add: fn_core_def Let_def sample_fn_module_def fw fn_state_strategy_def)
         (simp add: sample_wished_fn_def)
    have ll: "fst (fn_list_by_name fetch_all_resources ?b) = Ok [JStr ''web'' \<mapsto> sample_namespace]"
      by (simp add: fn_list_by_name_def helper_eq fetch_all_resources_def Let_def scripted_def
          listing_def reply_def ok_def Scaleway_def sample_namespace_def)
    have n: "[JStr ''web'' \<mapsto> sample_namespace] (JStr (fn_name sample_wished_fn)) = Some sample_namespace"
      by (simp add: sample_wished_fn_def)
    have dd: "resource_attributes_should_be_changed sample_namespace
               (JDict (payload_from_wished_fn sample_wished_fn))
               fn_VERIFIABLE_MUTABLE_ATTRIBUTES fn_MUTABLE_ATTRIBUTES = Ok (JDict [])"
      by (simp add: resource_attributes_should_be_changed_def sample_namespace_def
          payload_from_wished_fn_def sample_wished_fn_def fn_VERIFIABLE_MUTABLE_ATTRIBUTES_def)
    have "snd (fn_present_strategy (wait_to_complete_state_transition 1)
               resource_attributes_should_be_changed fetch_all_resources ?b sample_wished_fn)
          = after ?b (snd (fetch_all_resources ?b ''namespaces''))"
      using fn_present_converged [where lk = "[JStr ''web'' \<mapsto> sample_namespace]"
          and t = sample_namespace and d = resource_attributes_should_be_changed
          and wished = sample_wished_fn and f = fetch_all_resources, OF ll n dd]
      by simp
    then show ?thesis
      unfolding core fl by simp
  qed
  show ?thesis
    using c r fr fl fc modules_address_their_regional_endpoint
      [OF wait_addresses [of 1] fetch_addresses, where flt = filter_sensitive_attributes
         and srv = ?srv and im = sample_info_module]
      modules_address_their_regional_endpoint
      [OF wait_addresses [of 1] fetch_addresses, where flt = filter_sensitive_attributes
         and srv = ?fsrv and fm = sample_fn_module and d = resource_attributes_should_be_changed]
    by auto
qed

section \<open>Redaction of the secret environment variables\<close>

text \<open>
  C1. The claim is that every module replaces a \<open>secret_environment_variables\<close> attribute
  of the description it returns by the redaction marker. In three of the four modules
  \<open>SENSITIVE_ATTRIBUTES\<close> is a string, so the filter sets one-character attributes and
  leaves \<open>secret_environment_variables\<close> as it is: the function-namespace info module
  returns the namespace it has read with that attribute as the server sent it. (The
  function-namespace module, whose \<open>SENSITIVE_ATTRIBUTES\<close> is a tuple, redacts the same
  description: lemma \<open>function_namespace_result_redacts\<close>.)
\<close>

theorem function_namespace_info_echoes_secret_environment_variables:
  "\<exists>shown. fst (fn_info_core filter_sensitive_attributes
                  (scripted [listing [sample_namespace], reply 200 sample_namespace])
                  sample_info_module)
              = Exit_json False ''function_namespace'' shown
     \<and> getitem shown ''secret_environment_variables''
         = Inr (JList [JDict [(''key'', JStr ''K''), (''hashed_value'', JStr ''h4sh'')]])
     \<and> getitem shown ''secret_environment_variables'' \<noteq> Inr SENSITIVE_VALUE"
proof -
  let ?srv = "scripted [listing [sample_namespace], reply 200 sample_namespace]"
  have m: "inp_name sample_info_module = ''web''" "inp_region sample_info_module = ''fr-par''"
    "inp_check_mode sample_info_module = False"
    by (simp_all add: sample_info_module_def)
  have l: "fst (list_by_name ''function namespaces'' ''namespaces''
               ((Scaleway (inp_check_mode sample_info_module) ?srv)
                  \<lparr>api_path := ''functions/v1beta1/regions/'' @ inp_region sample_info_module @ ''/namespaces''\<rparr>))
         = Ok [JStr ''web'' \<mapsto> sample_namespace]"
    by (simp add: sample_info_listing sample_namespace_def)
  have t: "[JStr ''web'' \<mapsto> sample_namespace] (JStr (inp_name sample_info_module)) = Some sample_namespace"
    by (simp add: m)
  have i: "getitem sample_namespace ''id'' = Inr (JStr ''n1'')"
    by (simp add: sample_namespace_def)
  have r: "answer (after ((Scaleway (inp_check_mode sample_info_module) ?srv)
                  \<lparr>api_path := ''functions/v1beta1/regions/'' @ inp_region sample_info_module @ ''/namespaces''\<rparr>)
                  [list_request (''functions/v1beta1/regions/'' @ inp_region sample_info_module @ ''/namespaces'')])
           (read_request (''functions/v1beta1/regions/'' @ inp_region sample_info_module @ ''/namespaces'') (JStr ''n1''))
         = reply 200 sample_namespace"
    by (simp add: answer_def scripted_def Scaleway_def)
  have o: "ok (reply 200 sample_namespace)"
    by (simp add: ok_def reply_def)
  obtain kvs' where f: "filter_sensitive_attributes sample_namespace info_SENSITIVE_ATTRIBUTES = Ok (JDict kvs')"
    and v: "map_of kvs' ''secret_environment_variables''
        = Some (JList [JDict [(''key'', JStr ''K''), (''hashed_value'', JStr ''h4sh'')]])"
    unfolding sample_namespace_def info_SENSITIVE_ATTRIBUTES_def
    using filter_str_keeps [where k = "''secret_environment_variables''"
        and s = "''secret_environment_variables''"]
    by fastforce
  have f': "filter_sensitive_attributes (json (reply 200 sample_namespace)) info_SENSITIVE_ATTRIBUTES
      = Ok (JDict kvs')"
    using f by (simp add: reply_def)
  have "fst (fn_info_core filter_sensitive_attributes ?srv sample_info_module)
      = Exit_json False ''function_namespace'' (JDict kvs')"
    by (rule info_core_found [where lk = "[JStr ''web'' \<mapsto> sample_namespace]"
          and t = sample_namespace and flt = filter_sensitive_attributes, OF l t i r o f'])
  then show ?thesis
    using v by (auto simp: SENSITIVE_VALUE_def)
qed

lemma function_namespace_result_redacts:
  "\<exists>shown. fst (fn_core (wait_to_complete_state_transition 1) resource_attributes_should_be_changed
                  fetch_all_resources filter_sensitive_attributes
                  (scripted [listing [sample_namespace]]) sample_fn_module)
              = Exit_json False ''function_namespace'' shown
     \<and> getitem shown ''secret_environment_variables'' = Inr SENSITIVE_VALUE"
proof -
  let ?a = "(Scaleway False (scripted [listing [sample_namespace]]))
              \<lparr>api_path := ''functions/v1beta1/regions/fr-par/namespaces''\<rparr>"
  have w: "\<lparr>fn_state = Present, fn_project_id = ''p'', fn_name = ''web'', fn_description = ''d'',
      fn_environment_variables = [], fn_secret_environment_variables = [(''K'', JStr ''s3cret'')]\<rparr>
      = sample_wished_fn"
    by (simp add: sample_wished_fn_def)
  have core: "fn_core (wait_to_complete_state_transition 1) resource_attributes_should_be_changed
                  fetch_all_resources filter_sensitive_attributes
                  (scripted [listing [sample_namespace]]) sample_fn_module
      = finish filter_sensitive_attributes ''function_namespace'' fn_SENSITIVE_ATTRIBUTES
          (fn_present_strategy (wait_to_complete_state_transition 1)
             resource_attributes_should_be_changed fetch_all_resources ?a sample_wished_fn)"
    by (simp add: fn_core_def Let_def sample_fn_module_def w fn_state_strategy_def)
       (simp add: sample_wished_fn_def)
  have l: "fst (fn_list_by_name fetch_all_resources ?a) = Ok [JStr ''web'' \<mapsto> sample_namespace]"
    by (simp add: fn_list_by_name_def helper_eq fetch_all_resources_def Let_def scripted_def
        listing_def reply_def ok_def Scaleway_def sample_namespace_def)
  have n: "[JStr ''web'' \<mapsto> sample_namespace] (JStr (fn_name sample_wished_fn)) = Some sample_namespace"
    by (simp add: sample_wished_fn_def)
  have d: "resource_attributes_should_be_changed sample_namespace
             (JDict (payload_from_wished_fn sample_wished_fn))
             fn_VERIFIABLE_MUTABLE_ATTRIBUTES fn_MUTABLE_ATTRIBUTES = Ok (JDict [])"
    by (simp add: resource_attributes_should_be_changed_def sample_namespace_def
        payload_from_wished_fn_def sample_wished_fn_def fn_VERIFIABLE_MUTABLE_ATTRIBUTES_def)
  have s: "fst (fn_present_strategy (wait_to_complete_state_transition 1)
             resource_attributes_should_be_changed fetch_all_resources ?a sample_wished_fn)
           = Ok (False, sample_namespace)"
    using fn_present_converged [where lk = "[JStr ''web'' \<mapsto> sample_namespace]"
        and t = sample_namespace and d = resource_attributes_should_be_changed
        and wished = sample_wished_fn and f = fetch_all_resources, OF l n d]
    by simp
  obtain kvs' where f: "filter_sensitive_attributes sample_namespace fn_SENSITIVE_ATTRIBUTES = Ok (JDict kvs')"
    and m: "getitem (JDict kvs') ''secret_environment_variables'' = Inr SENSITIVE_VALUE"
    unfolding sample_namespace_def
    using function_namespace_filter_redacts by blast
  obtain b where e: "fn_present_strategy (wait_to_complete_state_transition 1)
             resource_attributes_should_be_changed fetch_all_resources ?a sample_wished_fn
           = (Ok (False, sample_namespace), b)"
    using s by (metis prod.collapse)
  have "fst (fn_core (wait_to_complete_state_transition 1) resource_attributes_should_be_changed
                  fetch_all_resources filter_sensitive_attributes
                  (scripted [listing [sample_namespace]]) sample_fn_module)
              = Exit_json False ''function_namespace'' (JDict kvs')"
    unfolding core e by (simp add: finish_def f)
  then show ?thesis
    using m by blast
qed

section \<open>The re-read after a creation\<close>

text \<open>
  C2. The claim is that no result is built from a response that is not ok. After a
  creation (and likewise after an update) the strategy re-reads the resource and returns
  the body of that response unchecked: with a server that answers the re-read with a 500,
  the container module exits with changed true and the error body as the container.
\<close>

theorem container_creation_returns_failed_reread:
  "\<not> ok (failing_reread_script ! 3)
   \<and> (\<exists>shown a. cn_core (wait_to_complete_state_transition 1) resource_attributes_should_be_changed
                   filter_sensitive_attributes (scripted failing_reread_script) sample_cn_module
                 = (Exit_json True ''container'' shown, a)
        \<and> getitem shown ''message'' = Inr (JStr ''internal error'')
        \<and> length (calls a) = 4
        \<and> answer (a\<lparr>calls := butlast (calls a)\<rparr>) (last (calls a)) = failing_reread_script ! 3)"
proof -
  let ?srv = "scripted failing_reread_script"
  let ?ep = "''containers/v1beta1/regions/fr-par/containers''"
  let ?a = "(Scaleway False ?srv)\<lparr>api_path := ?ep\<rparr>"
  let ?W = "wait_to_complete_state_transition 1"
  let ?pl = "JDict (butlast (payload_from_wished_cn sample_wished_cn))"
  let ?cr = "reply 200 (resource ''c1'' ''web'' ''pending'')"
  let ?am = "api_warn ?pl (after ?a [list_request (api_path ?a), post_request (api_path ?a) ?pl])"
  let ?body = "JDict [(''message'', JStr ''internal error'')]"
  have w: "\<lparr>cn_state = Present, cn_namespace_id = ''ns'', cn_name = ''web'', cn_description = ''d'',
      cn_min_scale = None, cn_max_scale = Some 2, cn_environment_variables = [],
      cn_secret_environment_variables = [(''K'', JStr ''s3cret'')], cn_memory_limit = None,
      cn_timeout = None, cn_privacy = ''public'', cn_registry_image = ''img'',
      cn_max_concurrency = None, cn_protocol = ''http1'', cn_port = None, cn_redeploy = False\<rparr>
      = sample_wished_cn"
    by (simp add: sample_wished_cn_def)
  have core: "cn_core ?W resource_attributes_should_be_changed filter_sensitive_attributes ?srv sample_cn_module
      = finish filter_sensitive_attributes ''container'' cn_SENSITIVE_ATTRIBUTES
          (cn_present_strategy ?W resource_attributes_should_be_changed ?a sample_wished_cn)"
    by (simp add: cn_core_def Let_def sample_cn_module_def w cn_state_strategy_def)
       (simp add: sample_wished_cn_def)
  have h1: "\<not> check_mode ?a"
    by (simp add: Scaleway_def)
  have h2: "fst (list_by_name ''containers'' ''containers'' ?a) = Ok Map.empty"
    using sample_cn_listing [where what = "''containers''" and cm = False and rs = "[]"
        and ep = ?ep]
    by (simp add: failing_reread_script_def)
  have h3: "Map.empty (JStr (cn_name sample_wished_cn)) = None"
    by simp
  have h4: "?cr = answer (after ?a [list_request (api_path ?a)]) (post_request (api_path ?a) ?pl)"
    by (simp add: answer_def scripted_def failing_reread_script_def Scaleway_def)
  have h5: "ok ?cr"
    by (simp add: ok_def reply_def)
  have h6: "?W ?am (json ?cr) cn_STABLE_STATES False = (Ok (), [read_request ?ep (JStr ''c1'')])"
    by (simp add: wait_to_complete_state_transition_def reply_def resource_def resource_path_def
        answer_def scripted_def failing_reread_script_def ok_def cn_STABLE_STATES_def
        read_request_def Scaleway_def)
  have h7: "getitem (json ?cr) ''id'' = Inr (JStr ''c1'')"
    by (simp add: reply_def resource_def)
  have r: "answer (after ?am [read_request ?ep (JStr ''c1'')]) (read_request ?ep (JStr ''c1''))
      = reply 500 ?body"
    by (simp add: answer_def scripted_def failing_reread_script_def Scaleway_def)
  have s: "cn_present_strategy ?W resource_attributes_should_be_changed ?a sample_wished_cn
      = (Ok (True, ?body),
         after ?am ([read_request ?ep (JStr ''c1'')] @ [read_request (api_path ?a) (JStr ''c1'')]))"
    using cn_present_created [where w = ?W and d = resource_attributes_should_be_changed
        and lk = Map.empty and pl = ?pl and cr = ?cr and am = ?am and u = "()"
        and polls = "[read_request ?ep (JStr ''c1'')]" and i = "JStr ''c1''",
        OF h1 h2 h3 refl h4 h5 refl h6 h7] r
    by (simp add: reply_def)
  have f: "filter_sensitive_attributes ?body cn_SENSITIVE_ATTRIBUTES
      = Ok (JDict (fold (\<lambda>attr kvs. setitem kvs attr SENSITIVE_VALUE)
                     (seq_items cn_SENSITIVE_ATTRIBUTES) [(''message'', JStr ''internal error'')]))"
    by (simp add: filter_sensitive_attributes_def)
  have m: "getitem (JDict (fold (\<lambda>attr kvs. setitem kvs attr SENSITIVE_VALUE)
                     (seq_items cn_SENSITIVE_ATTRIBUTES) [(''message'', JStr ''internal error'')]))
             ''message'' = Inr (JStr ''internal error'')"
    by (simp add: map_of_fold_setitem cn_SENSITIVE_ATTRIBUTES_def)
  have n: "\<not> ok (failing_reread_script ! 3)"
    by (simp add: failing_reread_script_def ok_def reply_def)
  have e: "cn_core ?W resource_attributes_should_be_changed filter_sensitive_attributes ?srv sample_cn_module
      = (Exit_json True ''container''
           (JDict (fold (\<lambda>attr kvs. setitem kvs attr SENSITIVE_VALUE)
                     (seq_items cn_SENSITIVE_ATTRIBUTES) [(''message'', JStr ''internal error'')])),
         after ?am ([read_request ?ep (JStr ''c1'')] @ [read_request (api_path ?a) (JStr ''c1'')]))"
    unfolding core s by (simp add: finish_def f)
  have c: "length (calls (after ?am ([read_request ?ep (JStr ''c1'')] @ [read_request (api_path ?a) (JStr ''c1'')]))) = 4"
    by (simp add: Scaleway_def)
  have l: "answer ((after ?am ([read_request ?ep (JStr ''c1'')] @ [read_request (api_path ?a) (JStr ''c1'')]))
                     \<lparr>calls := butlast (calls (after ?am ([read_request ?ep (JStr ''c1'')] @ [read_request (api_path ?a) (JStr ''c1'')])))\<rparr>)
             (last (calls (after ?am ([read_request ?ep (JStr ''c1'')] @ [read_request (api_path ?a) (JStr ''c1'')]))))
           = failing_reread_script ! 3"
    by (simp add: answer_def scripted_def failing_reread_script_def Scaleway_def after_def api_warn_def)
  show ?thesis
    using n e m c l by blast
qed

end
